theory Spec2Isabelle
  imports Complex_Main "HOL-Library.Sublist"
begin

section \<open>Python strings\<close>

text \<open>
  A Python \<open>str\<close> is a sequence of Unicode code points, and \<open>len\<close>, slicing and
  the regular expressions of the source all count code points. A string is therefore a
  list of code points (natural numbers); \<open>asc\<close> embeds an ASCII literal.
\<close>

type_synonym ustr = "nat list"

definition asc :: "string \<Rightarrow> ustr" where
  "asc s = map of_char s"

text \<open>\<open>str.isspace\<close> for one code point; the regular expression class \<open>\s\<close> of a
  \<open>str\<close> pattern is the same set.\<close>

definition py_isspace :: "nat \<Rightarrow> bool" where
  "py_isspace c \<longleftrightarrow>
     (9 \<le> c \<and> c \<le> 13) \<or> (28 \<le> c \<and> c \<le> 32) \<or> c = 133 \<or> c = 160 \<or> c = 5760 \<or>
     (8192 \<le> c \<and> c \<le> 8202) \<or> c = 8232 \<or> c = 8233 \<or> c = 8239 \<or> c = 8287 \<or> c = 12288"

text \<open>\<open>s.strip()\<close>\<close>

definition py_strip :: "ustr \<Rightarrow> ustr" where
  "py_strip s = rev (dropWhile py_isspace (rev (dropWhile py_isspace s)))"

text \<open>\<open>sub in s\<close> for strings: \<open>sub\<close> occurs in \<open>s\<close> as a contiguous run.\<close>

fun py_in :: "ustr \<Rightarrow> ustr \<Rightarrow> bool" where
  "py_in sub [] = (sub = [])"
| "py_in sub (c # s) = (prefix sub (c # s) \<or> py_in sub s)"

text \<open>\<open>s.split(sep)\<close> for a non-empty separator: the pieces between the
  non-overlapping occurrences of \<open>sep\<close>, found from the left. \<open>k\<close> counts the code
  points of a matched separator still to be passed over, \<open>cur\<close> is the piece being read.\<close>

fun split_go :: "ustr \<Rightarrow> nat \<Rightarrow> ustr \<Rightarrow> ustr \<Rightarrow> ustr list" where
  "split_go sep k cur [] = [cur]"
| "split_go sep (Suc k) cur (c # s) = split_go sep k cur s"
| "split_go sep 0 cur (c # s) =
     (if prefix sep (c # s) then cur # split_go sep (length sep - 1) [] s
      else split_go sep 0 (cur @ [c]) s)"

definition py_split :: "ustr \<Rightarrow> ustr \<Rightarrow> ustr list" where
  "py_split sep s = split_go sep 0 [] s"

text \<open>\<open>s.split()\<close>: the maximal runs of non-whitespace.\<close>

fun words_go :: "ustr \<Rightarrow> ustr \<Rightarrow> ustr list" where
  "words_go cur [] = (if cur = [] then [] else [cur])"
| "words_go cur (c # s) =
     (if py_isspace c then (if cur = [] then words_go [] s else cur # words_go [] s)
      else words_go (cur @ [c]) s)"

definition py_words :: "ustr \<Rightarrow> ustr list" where
  "py_words s = words_go [] s"

text \<open>\<open>sep.join(xs)\<close>\<close>

fun py_join :: "ustr \<Rightarrow> ustr list \<Rightarrow> ustr" where
  "py_join sep [] = []"
| "py_join sep [x] = x"
| "py_join sep (x # y # xs) = x @ sep @ py_join sep (y # xs)"


section \<open>Library tables that are not part of the repository\<close>

text \<open>
  The parts of the Unicode database and of the Python runtime the source relies on, taken as
  parameters: the decimal value of a non-ASCII code point of category Nd, \<open>str.lower\<close>,
  the caseless comparison of \<open>re.IGNORECASE\<close> (pattern code point first), \<open>str()\<close>
  of a decoded JSON value that is not a string, and the HTML parser. \<open>bs_parse\<close> stands for everything the
  source does with \<open>BeautifulSoup\<close> inside its \<open>try\<close>: \<open>None\<close> means that some
  step raised. JSON numbers are integers here.
\<close>

datatype json =
    JNull
  | JBool bool
  | JNum int
  | JStr ustr
  | JList "json list"
  | JDict "(ustr \<times> json) list"

text \<open>What the source reads off a parsed document: the attributes of the \<open>img\<close> and
  \<open>a\<close> elements, whether there are lists and headings, and the text.\<close>

record image =
  img_src :: ustr
  img_alt :: ustr
  img_title :: ustr

record link =
  link_href :: ustr
  link_text :: ustr
  link_title :: ustr

record parsed =
  p_images :: "image list"
  p_links :: "link list"
  p_has_lists :: bool
  p_has_headings :: bool
  p_text :: ustr

record tables =
  nd_value :: "nat \<Rightarrow> nat option"
  str_lower :: "ustr \<Rightarrow> ustr"
  ci_eq :: "nat \<Rightarrow> nat \<Rightarrow> bool"
  py_str :: "json \<Rightarrow> ustr"
  bs_parse :: "ustr \<Rightarrow> parsed option"

text \<open>The decimal digit value of a code point: the ASCII digits are fixed, the rest of
  category Nd comes from the table.\<close>

definition digit_value :: "tables \<Rightarrow> nat \<Rightarrow> nat option" where
  "digit_value T c =
     (if 48 \<le> c \<and> c \<le> 57 then Some (c - 48)
      else if c < 128 then None
      else nd_value T c)"

section \<open>Reading an integer: \<open>int(s)\<close>\<close>






section \<open>The identifier list of the dashboard: \<open>parse_id_input\<close>\<close>




section \<open>Regular expressions of the source\<close>

text \<open>
  The patterns of the source are sequences of single code points, classes and greedy
  repetitions of a class. \<open>re_match\<close> is \<open>re.match\<close> for such a sequence: it returns the
  length of the match at the start of the string, found by backtracking, the longer
  repetition first.
\<close>

datatype re_item = One "nat \<Rightarrow> bool" | Many "nat \<Rightarrow> bool"

fun re_match :: "re_item list \<Rightarrow> ustr \<Rightarrow> nat option" where
  "re_match [] s = Some 0"
| "re_match (One P # r) [] = None"
| "re_match (One P # r) (c # s) = (if P c then map_option Suc (re_match r s) else None)"
| "re_match (Many P # r) [] = re_match r []"
| "re_match (Many P # r) (c # s) =
     (if P c then
        (case re_match (Many P # r) s of
           Some n \<Rightarrow> Some (Suc n)
         | None \<Rightarrow> re_match r (c # s))
      else re_match r (c # s))"

text \<open>The class \<open>[\d,]\<close> and the pattern \<open>(Prix\s*:\s*[\d,]+\s*\<euro>\s*\|\s*)\<close>; the euro sign
  is code point 8364.\<close>

definition digit_or_comma :: "tables \<Rightarrow> nat \<Rightarrow> bool" where
  "digit_or_comma T c \<longleftrightarrow> digit_value T c \<noteq> None \<or> c = 44"

definition price_pattern :: "tables \<Rightarrow> re_item list" where
  "price_pattern T =
     [One (\<lambda>c. c = 80), One (\<lambda>c. c = 114), One (\<lambda>c. c = 105), One (\<lambda>c. c = 120),
      Many py_isspace, One (\<lambda>c. c = 58), Many py_isspace,
      One (digit_or_comma T), Many (digit_or_comma T), Many py_isspace,
      One (\<lambda>c. c = 8364), Many py_isspace, One (\<lambda>c. c = 124), Many py_isspace]"

text \<open>The pattern \<open><[^>]+>\<close>: after an opening bracket, at least one code point other than
  the closing bracket, then the closing bracket.\<close>

definition tag_at :: "ustr \<Rightarrow> bool" where
  "tag_at s \<longleftrightarrow> takeWhile (\<lambda>c. c \<noteq> 62) s \<noteq> [] \<and> dropWhile (\<lambda>c. c \<noteq> 62) s \<noteq> []"

text \<open>\<open>bool(re.search(r'<[^>]+>', s))\<close>\<close>

fun has_tag :: "ustr \<Rightarrow> bool" where
  "has_tag [] = False"
| "has_tag (c # s) = ((c = 60 \<and> tag_at s) \<or> has_tag s)"

text \<open>\<open>re.sub(r'<[^>]+>', '', s)\<close>; \<open>k\<close> counts the code points of a matched tag still to be
  dropped.\<close>

fun sub_go :: "nat \<Rightarrow> ustr \<Rightarrow> ustr" where
  "sub_go k [] = []"
| "sub_go (Suc k) (c # s) = sub_go k s"
| "sub_go 0 (c # s) =
     (if c = 60 \<and> tag_at s then sub_go (Suc (length (takeWhile (\<lambda>c. c \<noteq> 62) s))) s
      else c # sub_go 0 s)"

definition strip_tags :: "ustr \<Rightarrow> ustr" where
  "strip_tags s = sub_go 0 s"

text \<open>\<open>len(re.findall(pat, text, re.IGNORECASE))\<close> for a pattern of literal code points: the
  number of non-overlapping caseless occurrences, counted from the left.\<close>

definition ci_prefix :: "tables \<Rightarrow> ustr \<Rightarrow> ustr \<Rightarrow> bool" where
  "ci_prefix T pat s \<longleftrightarrow> length pat \<le> length s \<and> list_all2 (ci_eq T) pat (take (length pat) s)"

fun count_go :: "tables \<Rightarrow> ustr \<Rightarrow> nat \<Rightarrow> ustr \<Rightarrow> nat" where
  "count_go T pat k [] = 0"
| "count_go T pat (Suc k) (c # s) = count_go T pat k s"
| "count_go T pat 0 (c # s) =
     (if ci_prefix T pat (c # s) then Suc (count_go T pat (length pat - 1) s)
      else count_go T pat 0 s)"

section \<open>The HTML content splitter: \<open>extract_and_preserve_html\<close>\<close>

text \<open>The structure is a dictionary; a key that is absent is \<open>None\<close>, so the empty
  dictionary has every field \<open>None\<close>.\<close>

record html_structure =
  images :: "image list option"
  links :: "link list option"
  has_lists :: "bool option"
  has_headings :: "bool option"
  original_html :: "ustr option"

definition empty_structure :: html_structure where
  "empty_structure =
     \<lparr>images = None, links = None, has_lists = None, has_headings = None, original_html = None\<rparr>"

definition extract_and_preserve_html :: "tables \<Rightarrow> ustr \<Rightarrow> ustr \<times> html_structure" where
  "extract_and_preserve_html T html_content =
     (if html_content = [] then ([], empty_structure)
      else
        (case bs_parse T html_content of
           Some soup \<Rightarrow>
             (p_text soup,
              \<lparr>images = Some (p_images soup), links = Some (p_links soup),
               has_lists = Some (p_has_lists soup), has_headings = Some (p_has_headings soup),
               original_html = Some html_content\<rparr>)
         | None \<Rightarrow> (html_content, empty_structure\<lparr>original_html := Some html_content\<rparr>)))"

section \<open>The rewrite step: \<open>rewrite_content_with_seo\<close>\<close>

subsection \<open>Brand phrase and price prefix\<close>

definition has_vapoteur_discount :: "tables \<Rightarrow> ustr \<Rightarrow> bool" where
  "has_vapoteur_discount T content \<longleftrightarrow>
     py_in (asc ''Le Vapoteur Discount'') content \<or>
     py_in (asc ''le vapoteur discount'') (str_lower T content)"

text \<open>The price prefix and the content that is left to rewrite. Only a meta description
  is searched; on a match the prefix is group 1 and the content becomes the rest,
  trimmed.\<close>

definition extract_price :: "tables \<Rightarrow> ustr \<Rightarrow> ustr \<Rightarrow> ustr \<times> ustr" where
  "extract_price T field_type content =
     (if field_type = asc ''Meta description'' then
        (case re_match (price_pattern T) content of
           Some n \<Rightarrow> (take n content, py_strip (drop (length (take n content)) content))
         | None \<Rightarrow> ([], content))
      else ([], content))"

subsection \<open>The prompt\<close>

definition caracteres :: ustr where
  "caracteres = asc ''caract'' @ [232] @ asc ''res''"

definition length_target :: "ustr \<Rightarrow> ustr \<Rightarrow> ustr" where
  "length_target field_type price_prefix =
     (if field_type = asc ''Description courte'' then asc ''50-100 mots''
      else if field_type = asc ''Description'' then asc ''200-400 mots''
      else if field_type = asc ''Meta description'' then
        (if price_prefix = [] then asc ''140-150 '' @ caracteres else asc ''100-120 '' @ caracteres)
      else if field_type = asc ''Meta titre'' then asc ''50-60 '' @ caracteres
      else asc ''100-200 mots'')"

definition brand_instruction :: "bool \<Rightarrow> ustr" where
  "brand_instruction has_brand =
     (if has_brand then
        [10] @ asc ''IMPORTANT : Si le texte contient '' @ [34] @ asc ''Le Vapoteur Discount'' @ [34] @
        asc '' - CONSERVE EXACTEMENT cette mention avec cette orthographe.''
      else [])"

definition price_instruction :: "ustr \<Rightarrow> ustr" where
  "price_instruction price_prefix =
     (if price_prefix \<noteq> [] then
        [10] @ asc ''TR'' @ [200] @ asc ''S IMPORTANT : Le texte commence par '' @ [34] @
        price_prefix @
        [34] @ asc '' - NE PAS l'' @ [39] @ asc ''inclure dans ta r'' @ [233, 233] @
        asc ''criture, je l'' @ [39] @ asc ''ajouterai moi-m'' @ [234] @ asc ''me.''
      else [])"

definition prompt_head :: ustr where
  "prompt_head =
     asc ''Tu es un expert SEO ET un sp'' @ [233] @ asc ''cialiste de la conformit'' @ [233] @
     asc '' r'' @ [233] @ asc ''glementaire pour les produits de vapotage.'' @ [10, 10] @
     asc ''CONTEXTE L'' @ [201] @ asc ''GAL FIVAPE (Avril 2024) :'' @ [10] @
     asc ''- Directive europ'' @ [233] @ asc ''enne 2014/40/UE et Code de la Sant'' @ [233] @
     asc '' Publique'' @ [10] @
     asc ''- Interdiction TOTALE des termes promotionnels et subjectifs'' @ [10] @
     asc ''- Uniquement des informations factuelles et techniques'' @ [10, 10] @
     asc ''PRODUIT : ''"

definition prompt_contenu :: ustr where
  "prompt_contenu =
     [10, 10] @ asc ''CONTENU '' @ [192] @ asc '' R'' @ [201, 201] @
     asc ''CRIRE (sans le prix si pr'' @ [233] @ asc ''sent) :'' @ [10]"

definition prompt_mission :: ustr where
  "prompt_mission =
     [10, 10] @ asc ''MISSION : R'' @ [233, 233] @
     asc ''crire ce contenu en respectant STRICTEMENT :'' @ [10, 10] @
     asc ''1. SUPPRIMER tous les termes de ce type : d'' @ [233] @
     asc ''licieux, savoureux, gourmand, excellent, parfait, bonheur, plaisir, intense, etc.'' @
     [10] @ asc ''2. GARDER uniquement les informations factuelles'' @ [10] @
     asc ''3. Si c'' @ [39] @ asc ''est une Meta Description, rester TR'' @ [200] @
     asc ''S concis (''"

definition prompt_rule4 :: ustr where
  "prompt_rule4 =
     asc '')'' @ [10] @ asc ''4. Si c'' @ [39] @ asc ''est un Meta titre, '' @ [234] @
     asc ''tre court et percutant (''"

definition prompt_tail :: ustr where
  "prompt_tail =
     asc '')'' @ [10] @ asc ''5. Pr'' @ [233] @
     asc ''server les informations techniques : compatibilit'' @ [233] @ asc '', r'' @ [233] @
     asc ''sistances, formats'' @ [10, 10] @
     asc ''Fournis UNIQUEMENT le texte r'' @ [233, 233] @
     asc ''crit, sans le prix, sans commentaires.''"

text \<open>The prompt is the fixed text with its slots filled. The fifth argument is the
  content to rewrite.\<close>

definition build_prompt :: "ustr \<Rightarrow> ustr \<Rightarrow> ustr \<Rightarrow> ustr \<Rightarrow> ustr \<Rightarrow> ustr \<Rightarrow> ustr \<Rightarrow> ustr" where
  "build_prompt item_name item_type field_type target_length content brand price =
     prompt_head @ item_name @
     [10] @ asc ''TYPE : '' @ item_type @
     [10] @ asc ''CHAMP : '' @ field_type @
     [10] @ asc ''LONGUEUR CIBLE : '' @ target_length @
     prompt_contenu @ content @
     [10, 10] @ brand @ [10] @ price @
     prompt_mission @ target_length @ prompt_rule4 @ target_length @ prompt_tail"

text \<open>One call of the generation service. The service is outside the program: it gets the
  request and the state of the outside world and answers with the text of the first
  choice, or the call raises (\<open>None\<close>); every exception inside the \<open>try\<close> of the source
  comes from this call.\<close>

record chat_request =
  model :: ustr
  system_message :: ustr
  user_message :: ustr
  temperature :: rat
  max_tokens :: nat

type_synonym 'g generation = "'g \<Rightarrow> chat_request \<Rightarrow> ustr option \<times> 'g"

definition chat_request_of :: "ustr \<Rightarrow> chat_request" where
  "chat_request_of prompt =
     \<lparr>model = asc ''gpt-4o-mini'',
      system_message =
        asc ''Expert SEO vapotage. R'' @ [233] @ asc ''daction factuelle conforme FIVAPE.'',
      user_message = prompt,
      temperature = 3 / 10,
      max_tokens = 500\<rparr>"

subsection \<open>The response normalizer\<close>

text \<open>The loop over the lines of a response with code fences: a line with a fence toggles
  \<open>in_code_block\<close> and is dropped, any other line is kept outside a block.\<close>

fun fence_lines :: "bool \<Rightarrow> ustr list \<Rightarrow> ustr list" where
  "fence_lines in_code_block [] = []"
| "fence_lines in_code_block (line # lines) =
     (if py_in [96, 96, 96] line then fence_lines (\<not> in_code_block) lines
      else if \<not> in_code_block then line # fence_lines in_code_block lines
      else fence_lines in_code_block lines)"

definition strip_code_fences :: "ustr \<Rightarrow> ustr" where
  "strip_code_fences rewritten =
     (if py_in [96, 96, 96] rewritten then
        py_strip (py_join [10] (fence_lines False (py_split [10] rewritten)))
      else rewritten)"

definition end_sentence :: "ustr \<Rightarrow> ustr" where
  "end_sentence sentence = sentence @ (if sentence \<noteq> [] \<and> last sentence = 46 then [] else [46])"

text \<open>The loop over the sentences: \<open>n\<close> is their number, \<open>i\<close> the index of the next one,
  \<open>current_p\<close> the sentences of the paragraph being filled. The result is
  \<open>html_paragraphs\<close>.\<close>

fun wrap_go :: "nat \<Rightarrow> nat \<Rightarrow> ustr list \<Rightarrow> ustr list \<Rightarrow> ustr list" where
  "wrap_go n i current_p [] = []"
| "wrap_go n i current_p (sentence # rest) =
     (if (i + 1) mod 3 = 0 \<or> i = n - 1 then
        (asc ''<p>'' @ py_join [32] (current_p @ [end_sentence sentence]) @ asc ''</p>'')
          # wrap_go n (i + 1) [] rest
      else wrap_go n (i + 1) (current_p @ [end_sentence sentence]) rest)"

definition add_paragraphs :: "ustr \<Rightarrow> ustr \<Rightarrow> ustr" where
  "add_paragraphs field_type rewritten =
     (if (field_type = asc ''Description courte'' \<or> field_type = asc ''Description'')
         \<and> 60 \<notin> set rewritten then
        (let paragraphs = py_split (asc ''. '') rewritten in
           if length paragraphs > 3 then
             py_join [10] (wrap_go (length paragraphs) 0 [] paragraphs)
           else asc ''<p>'' @ rewritten @ asc ''</p>'')
      else rewritten)"

definition normalize_response :: "ustr \<Rightarrow> ustr \<Rightarrow> ustr \<Rightarrow> ustr" where
  "normalize_response field_type price_prefix response =
     (let cleaned = strip_code_fences (py_strip response);
          with_price = (if price_prefix \<noteq> [] then price_prefix @ cleaned else cleaned)
      in add_paragraphs field_type with_price)"

subsection \<open>Keywords and statistics\<close>

definition count_keywords :: "tables \<Rightarrow> ustr \<Rightarrow> (ustr \<times> nat) list" where
  "count_keywords T text =
     map (\<lambda>kw. (kw, count_go T kw 0 text))
       [asc ''e-liquide'', asc ''vapotage'',
        asc ''cigarette '' @ [233] @ asc ''lectronique'', asc ''vape'', asc ''nicotine'']"

record rewrite_stats =
  original_length :: nat
  new_length :: nat
  original_word_count :: nat
  new_word_count :: nat
  html_preserved :: bool
  keywords_integrated :: "(ustr \<times> nat) list"
  price_preserved :: bool
  brand_preserved :: "bool option"

definition make_stats :: "tables \<Rightarrow> bool \<Rightarrow> ustr \<Rightarrow> ustr \<Rightarrow> ustr \<Rightarrow> rewrite_stats" where
  "make_stats T has_brand price_prefix content rewritten =
     (let original = (if price_prefix \<noteq> [] then content @ price_prefix else content) in
      \<lparr>original_length = length original,
       new_length = length rewritten,
       original_word_count = length (py_words original),
       new_word_count = length (py_words rewritten),
       html_preserved = has_tag rewritten,
       keywords_integrated = count_keywords T rewritten,
       price_preserved = (price_prefix \<noteq> []),
       brand_preserved =
         (if has_brand then Some (py_in (asc ''Le Vapoteur Discount'') rewritten) else None)\<rparr>)"

subsection \<open>The step\<close>

text \<open>
  The request the step sends for a content that passes the length check, and the step
  itself. The empty dictionary of statistics is \<open>None\<close>. The parameter
  \<open>html_structure\<close> is not used by the source. The state \<open>g\<close> of the outside world is
  passed through the one call of the service.
\<close>

definition rewrite_request :: "tables \<Rightarrow> ustr \<Rightarrow> ustr \<Rightarrow> ustr \<Rightarrow> ustr \<Rightarrow> chat_request" where
  "rewrite_request T content field_type item_name item_type =
     (case extract_price T field_type content of
        (price_prefix, content') \<Rightarrow>
          chat_request_of
            (build_prompt item_name item_type field_type (length_target field_type price_prefix)
               content' (brand_instruction (has_vapoteur_discount T content))
               (price_instruction price_prefix)))"

definition rewrite_content_with_seo ::
  "tables \<Rightarrow> 'g generation \<Rightarrow> ustr \<Rightarrow> ustr \<Rightarrow> ustr \<Rightarrow> ustr \<Rightarrow> html_structure \<Rightarrow> 'g
     \<Rightarrow> (ustr \<times> rewrite_stats option) \<times> 'g" where
  "rewrite_content_with_seo T generate content field_type item_name item_type structure g =
     (if content = [] \<or> length (py_strip content) < 10 then ((content, None), g)
      else
        (case extract_price T field_type content of
           (price_prefix, content') \<Rightarrow>
             (case generate g (rewrite_request T content field_type item_name item_type) of
                (Some response, g') \<Rightarrow>
                  (let rewritten = normalize_response field_type price_prefix response in
                   ((rewritten,
                     Some (make_stats T (has_vapoteur_discount T content) price_prefix content'
                             rewritten)), g'))
              | (None, g') \<Rightarrow>
                  ((if price_prefix \<noteq> [] then price_prefix @ content' else content', None), g'))))"

section \<open>The item processor: \<open>process_item\<close>\<close>

subsection \<open>Field values\<close>

text \<open>
  A catalog item is the dictionary decoded from the platform's JSON; the value of a field
  is a string, a list or a nested dictionary. The exceptions that escape \<open>process_item\<close>
  are values.
\<close>

type_synonym item = "(ustr \<times> json) list"

datatype py_error = AttributeError | TypeError

definition truthy :: "json \<Rightarrow> bool" where
  "truthy v =
     (case v of
        JNull \<Rightarrow> False
      | JBool b \<Rightarrow> b
      | JNum n \<Rightarrow> n \<noteq> 0
      | JStr s \<Rightarrow> s \<noteq> []
      | JList xs \<Rightarrow> xs \<noteq> []
      | JDict d \<Rightarrow> d \<noteq> [])"

text \<open>\<open>d.get(key, dflt)\<close>\<close>

definition dict_get :: "item \<Rightarrow> ustr \<Rightarrow> json \<Rightarrow> json" where
  "dict_get d key dflt = (case map_of d key of Some v \<Rightarrow> v | None \<Rightarrow> dflt)"

text \<open>\<open>str(v)\<close>: a string is itself, any other value is rendered by the runtime.\<close>

definition to_str :: "tables \<Rightarrow> json \<Rightarrow> ustr" where
  "to_str T v = (case v of JStr s \<Rightarrow> s | _ \<Rightarrow> py_str T v)"

text \<open>\<open>extract_content\<close> returns whatever it finds, not always a string; \<open>.get\<close> on
  a first language entry that is not a dictionary raises \<open>AttributeError\<close>.\<close>

definition extract_content :: "tables \<Rightarrow> json \<Rightarrow> py_error + json" where
  "extract_content T field_data =
     (case field_data of
        JDict d \<Rightarrow>
          (case map_of d (asc ''language'') of
             Some languages \<Rightarrow>
               (case languages of
                  JList [] \<Rightarrow> Inr (JStr [])
                | JList (first # others) \<Rightarrow>
                    (case first of
                       JDict l \<Rightarrow> Inr (dict_get l (asc ''value'') (JStr []))
                     | _ \<Rightarrow> Inl AttributeError)
                | JDict l \<Rightarrow> Inr (dict_get l (asc ''value'') (JStr []))
                | _ \<Rightarrow> Inr (JStr []))
           | None \<Rightarrow> Inr (dict_get d (asc ''value'') (JStr (to_str T field_data))))
      | JList [] \<Rightarrow> Inr (JStr [])
      | JList (first # others) \<Rightarrow> Inr first
      | _ \<Rightarrow> Inr (JStr (if truthy field_data then to_str T field_data else [])))"

subsection \<open>Results of an item\<close>

record rewrite_data =
  field :: ustr
  field_name :: ustr
  original_content :: ustr
  rewritten_content :: ustr
  original_text_only :: ustr
  rewritten_text_only :: ustr
  stats :: "rewrite_stats option"
  "keywords" :: "(ustr \<times> nat) list"

record seo_counters =
  fields_rewritten :: nat
  total_keywords_added :: nat
  html_structure_improved :: nat

record item_result =
  res_id :: json
  res_name :: ustr
  res_type :: ustr
  has_been_rewritten :: bool
  "rewrites" :: "rewrite_data list"
  seo_stats :: seo_counters

text \<open>The name used in the prompts. \<open>re.sub\<close> raises \<open>TypeError\<close> on a name that is not
  a string.\<close>

definition item_name_of :: "tables \<Rightarrow> item \<Rightarrow> ustr \<Rightarrow> py_error + ustr" where
  "item_name_of T item item_type =
     (case extract_content T (dict_get item (asc ''name'') (JStr [])) of
        Inl e \<Rightarrow> Inl e
      | Inr (JStr name_content) \<Rightarrow>
          (let name_text = strip_tags name_content in
           Inr (if name_text \<noteq> [] then take 100 name_text
                else item_type @ [32] @ to_str T (dict_get item (asc ''id'') JNull)))
      | Inr other \<Rightarrow> Inl TypeError)"

definition fields_to_skip :: "ustr \<Rightarrow> ustr list" where
  "fields_to_skip item_type = (if item_type = asc ''product'' then [asc ''name''] else [])"

subsection \<open>The loop over the fields\<close>

text \<open>
  The rewrite step is a parameter of the loop, so that what the loop asks of it can be
  stated; \<open>process_item\<close> below passes \<open>rewrite_content_with_seo\<close>.
\<close>

type_synonym 'g rewrite_step =
  "ustr \<Rightarrow> ustr \<Rightarrow> ustr \<Rightarrow> ustr \<Rightarrow> html_structure \<Rightarrow> 'g \<Rightarrow> (ustr \<times> rewrite_stats option) \<times> 'g"

text \<open>What the loop does with a field that was rewritten to something else.\<close>

definition record_rewrite ::
  "ustr \<Rightarrow> ustr \<Rightarrow> ustr \<Rightarrow> ustr \<Rightarrow> rewrite_stats option \<Rightarrow> item_result \<Rightarrow> item_result" where
  "record_rewrite fld fld_name original rewritten st result =
     (let kws = (case st of Some s \<Rightarrow> keywords_integrated s | None \<Rightarrow> []);
          counters = seo_stats result;
          rewrite =
            \<lparr>field = fld, field_name = fld_name,
             original_content = original, rewritten_content = rewritten,
             original_text_only = strip_tags original,
             rewritten_text_only = strip_tags rewritten,
             stats = st, keywords = kws\<rparr>
      in result
           \<lparr>has_been_rewritten := True,
            seo_stats := counters
              \<lparr>fields_rewritten := fields_rewritten counters + 1,
               total_keywords_added := total_keywords_added counters + sum_list (map snd kws)\<rparr>,
            rewrites := rewrites result @ [rewrite]\<rparr>)"

text \<open>One pass of the loop body. \<open>.strip()\<close> on a content that is true but not a string
  raises \<open>AttributeError\<close>.\<close>

definition process_field ::
  "tables \<Rightarrow> 'g rewrite_step \<Rightarrow> item \<Rightarrow> ustr \<Rightarrow> ustr \<Rightarrow> ustr \<times> ustr \<Rightarrow> item_result \<Rightarrow> 'g
     \<Rightarrow> (py_error + item_result) \<times> 'g" where
  "process_field T rewrite item item_name item_type entry result g =
     (case entry of
        (fld, fld_name) \<Rightarrow>
          if fld \<in> set (fields_to_skip item_type) then (Inr result, g)
          else
            (case map_of item fld of
               None \<Rightarrow> (Inr result, g)
             | Some field_data \<Rightarrow>
                 (case extract_content T field_data of
                    Inl e \<Rightarrow> (Inl e, g)
                  | Inr content \<Rightarrow>
                      if \<not> truthy content then (Inr result, g)
                      else
                        (case content of
                           JStr original \<Rightarrow>
                             if length (py_strip original) > 5 then
                               (case rewrite original fld_name item_name item_type
                                       (snd (extract_and_preserve_html T original)) g of
                                  ((rewritten, st), g') \<Rightarrow>
                                    if rewritten \<noteq> original then
                                      (Inr (record_rewrite fld fld_name original rewritten st result),
                                       g')
                                    else (Inr result, g'))
                             else (Inr result, g)
                         | _ \<Rightarrow> (Inl AttributeError, g)))))"

fun process_fields ::
  "tables \<Rightarrow> 'g rewrite_step \<Rightarrow> item \<Rightarrow> ustr \<Rightarrow> ustr \<Rightarrow> (ustr \<times> ustr) list \<Rightarrow> item_result \<Rightarrow> 'g
     \<Rightarrow> (py_error + item_result) \<times> 'g" where
  "process_fields T rewrite item item_name item_type [] result g = (Inr result, g)"
| "process_fields T rewrite item item_name item_type (entry # entries) result g =
     (case process_field T rewrite item item_name item_type entry result g of
        (Inl e, g') \<Rightarrow> (Inl e, g')
      | (Inr result', g') \<Rightarrow>
          process_fields T rewrite item item_name item_type entries result' g')"

definition new_result :: "json \<Rightarrow> ustr \<Rightarrow> ustr \<Rightarrow> item_result" where
  "new_result item_id item_name item_type =
     \<lparr>res_id = item_id, res_name = item_name, res_type = item_type,
      has_been_rewritten = False, rewrites = [],
      seo_stats =
        \<lparr>fields_rewritten = 0, total_keywords_added = 0, html_structure_improved = 0\<rparr>\<rparr>"

definition process_item_with ::
  "tables \<Rightarrow> 'g rewrite_step \<Rightarrow> item \<Rightarrow> ustr \<Rightarrow> (ustr \<times> ustr) list \<Rightarrow> 'g
     \<Rightarrow> (py_error + item_result) \<times> 'g" where
  "process_item_with T rewrite item item_type fields_to_process g =
     (case item_name_of T item item_type of
        Inl e \<Rightarrow> (Inl e, g)
      | Inr item_name \<Rightarrow>
          process_fields T rewrite item item_name item_type fields_to_process
            (new_result (dict_get item (asc ''id'') JNull) item_name item_type) g)"

definition process_item ::
  "tables \<Rightarrow> 'g generation \<Rightarrow> item \<Rightarrow> ustr \<Rightarrow> (ustr \<times> ustr) list \<Rightarrow> 'g
     \<Rightarrow> (py_error + item_result) \<times> 'g" where
  "process_item T generate = process_item_with T (rewrite_content_with_seo T generate)"

section \<open>The batch driver\<close>

record run_metadata =
  date :: ustr
  url :: ustr
  total_products_analyzed :: nat
  total_categories_analyzed :: nat
  total_manufacturers_analyzed :: nat
  items_rewritten :: nat
  seo_improvements :: nat

record run_results =
  metadata :: run_metadata
  products :: "item_result list"
  categories :: "item_result list"
  manufacturers :: "item_result list"
  errors :: "ustr list"

text \<open>The results a new rewriter starts with.\<close>

definition init_results :: "ustr \<Rightarrow> ustr \<Rightarrow> run_results" where
  "init_results now prestashop_url =
     \<lparr>metadata =
        \<lparr>date = now, url = prestashop_url, total_products_analyzed = 0,
         total_categories_analyzed = 0, total_manufacturers_analyzed = 0,
         items_rewritten = 0, seo_improvements = 0\<rparr>,
      products = [], categories = [], manufacturers = [], errors = []\<rparr>"

text \<open>
  The source has one copy of the loop for each of the three collections; they differ in
  the collection, the item type and the field labels.
\<close>

datatype collection = Products | Categories | Manufacturers

definition type_of :: "collection \<Rightarrow> ustr" where
  "type_of coll =
     (case coll of Products \<Rightarrow> asc ''product'' | Categories \<Rightarrow> asc ''category''
      | Manufacturers \<Rightarrow> asc ''manufacturer'')"

definition fields_of :: "collection \<Rightarrow> (ustr \<times> ustr) list" where
  "fields_of coll =
     (case coll of
        Products \<Rightarrow>
          [(asc ''name'', asc ''Nom du produit''),
           (asc ''description_short'', asc ''Description courte''),
           (asc ''meta_title'', asc ''Meta titre''),
           (asc ''meta_description'', asc ''Meta description'')]
      | Categories \<Rightarrow>
          [(asc ''name'', asc ''Nom de la cat'' @ [233] @ asc ''gorie''),
           (asc ''description'', asc ''Description''),
           (asc ''additional_description'', asc ''Informations compl'' @ [233] @ asc ''mentaires''),
           (asc ''meta_title'', asc ''Balise titre''),
           (asc ''meta_description'', asc ''Meta description'')]
      | Manufacturers \<Rightarrow>
          [(asc ''name'', asc ''Nom''),
           (asc ''short_description'', asc ''R'' @ [233] @ asc ''sum'' @ [233]),
           (asc ''description'', asc ''Description''),
           (asc ''meta_title'', asc ''Balise titre''),
           (asc ''meta_description'', asc ''Meta description'')])"

definition set_total :: "collection \<Rightarrow> nat \<Rightarrow> run_results \<Rightarrow> run_results" where
  "set_total coll n res =
     (case coll of
        Products \<Rightarrow> res\<lparr>metadata := (metadata res)\<lparr>total_products_analyzed := n\<rparr>\<rparr>
      | Categories \<Rightarrow> res\<lparr>metadata := (metadata res)\<lparr>total_categories_analyzed := n\<rparr>\<rparr>
      | Manufacturers \<Rightarrow> res\<lparr>metadata := (metadata res)\<lparr>total_manufacturers_analyzed := n\<rparr>\<rparr>)"

text \<open>Appending the result of an item, then counting it if it was rewritten.\<close>

definition add_result :: "collection \<Rightarrow> item_result \<Rightarrow> run_results \<Rightarrow> run_results" where
  "add_result coll result res =
     (let appended =
            (case coll of
               Products \<Rightarrow> res\<lparr>products := products res @ [result]\<rparr>
             | Categories \<Rightarrow> res\<lparr>categories := categories res @ [result]\<rparr>
             | Manufacturers \<Rightarrow> res\<lparr>manufacturers := manufacturers res @ [result]\<rparr>)
      in if has_been_rewritten result then
           appended\<lparr>metadata := (metadata appended)
             \<lparr>items_rewritten := items_rewritten (metadata appended) + 1\<rparr>\<rparr>
         else appended)"

text \<open>
  The loop over the items. Nothing in the driver catches an exception of
  \<open>process_item\<close>: it ends the run, and the results keep what was added before it. The
  outcome of a run is the exception, if any, the results and the outside world. The
  optional progress callback and the pause after a product are left out.
\<close>

fun process_all ::
  "(item \<Rightarrow> 'g \<Rightarrow> (py_error + item_result) \<times> 'g) \<Rightarrow> collection \<Rightarrow> item list \<Rightarrow> run_results \<Rightarrow> 'g
     \<Rightarrow> py_error option \<times> run_results \<times> 'g" where
  "process_all process coll [] res g = (None, res, g)"
| "process_all process coll (it # items) res g =
     (case process it g of
        (Inl e, g') \<Rightarrow> (Some e, res, g')
      | (Inr result, g') \<Rightarrow> process_all process coll items (add_result coll result res) g')"

definition run_collection ::
  "tables \<Rightarrow> 'g generation \<Rightarrow> collection \<Rightarrow> item list \<Rightarrow> run_results \<Rightarrow> 'g
     \<Rightarrow> py_error option \<times> run_results \<times> 'g" where
  "run_collection T generate coll items res g =
     (if items = [] then (None, res, g)
      else
        process_all (\<lambda>it. process_item T generate it (type_of coll) (fields_of coll)) coll items
          (set_total coll (length items) res) g)"

text \<open>The catalog fetcher is the HTTP boundary: what the three listings return for a
  limit, and what the detail request returns for an identifier (\<open>None\<close> when the status
  is not 200 or the request raised).\<close>

record catalog =
  get_products :: "int option \<Rightarrow> item list"
  get_categories :: "int option \<Rightarrow> item list"
  get_manufacturers :: "int option \<Rightarrow> item list"
  get_item :: "collection \<Rightarrow> int \<Rightarrow> item option"

definition choice_of :: "ustr \<Rightarrow> nat" where
  "choice_of element_type =
     (if element_type = asc ''Produits'' then 1
      else if element_type = asc ''Cat'' @ [233] @ asc ''gories'' then 2
      else if element_type = asc ''Marques'' then 3
      else if element_type = asc ''Tout'' then 4
      else 1)"

text \<open>Running the next part of a run unless an exception has ended it.\<close>

definition and_then ::
  "py_error option \<times> run_results \<times> 'g \<Rightarrow> (run_results \<Rightarrow> 'g \<Rightarrow> py_error option \<times> run_results \<times> 'g)
     \<Rightarrow> py_error option \<times> run_results \<times> 'g" where
  "and_then outcome next =
     (case outcome of
        (Some e, res, g) \<Rightarrow> (Some e, res, g)
      | (None, res, g) \<Rightarrow> next res g)"

definition run_with_params ::
  "tables \<Rightarrow> 'g generation \<Rightarrow> catalog \<Rightarrow> ustr \<Rightarrow> int \<Rightarrow> run_results \<Rightarrow> 'g
     \<Rightarrow> py_error option \<times> run_results \<times> 'g" where
  "run_with_params T generate cat element_type nb_items res g =
     (let limit = (if nb_items = 0 then None else Some nb_items);
          choice = choice_of element_type
      in and_then
           (and_then
              (if choice = 1 \<or> choice = 4 then
                 run_collection T generate Products (get_products cat limit) res g
               else (None, res, g))
              (\<lambda>res g.
                 if choice = 2 \<or> choice = 4 then
                   run_collection T generate Categories (get_categories cat limit) res g
                 else (None, res, g)))
           (\<lambda>res g.
              if choice = 3 \<or> choice = 4 then
                run_collection T generate Manufacturers (get_manufacturers cat limit) res g
              else (None, res, g)))"

definition collection_of :: "ustr \<Rightarrow> collection" where
  "collection_of element_type =
     (if element_type = asc ''Produits'' then Products
      else if element_type = asc ''Cat'' @ [233] @ asc ''gories'' then Categories
      else if element_type = asc ''Marques'' then Manufacturers
      else Products)"

definition run_with_specific_ids ::
  "tables \<Rightarrow> 'g generation \<Rightarrow> catalog \<Rightarrow> ustr \<Rightarrow> int list \<Rightarrow> run_results \<Rightarrow> 'g
     \<Rightarrow> py_error option \<times> run_results \<times> 'g" where
  "run_with_specific_ids T generate cat element_type specific_ids res g =
     (let coll = collection_of element_type;
          items = List.map_filter (get_item cat coll) specific_ids
      in run_collection T generate coll items res g)"

text \<open>The number of results marked as rewritten in the three collections.\<close>

definition rewritten_count :: "run_results \<Rightarrow> nat" where
  "rewritten_count res =
     length (filter has_been_rewritten (products res @ categories res @ manufacturers res))"

section \<open>Instances for evaluation\<close>

text \<open>
  For evaluating the definitions at ASCII inputs: a table with no digit beyond ASCII, the
  ASCII case mapping, no rendering of values that are not strings, and a parser that
  raises on every input; a generation service that answers every request with a given
  text, and one whose every call raises.
\<close>

definition ascii_lower :: "nat \<Rightarrow> nat" where
  "ascii_lower c = (if 65 \<le> c \<and> c \<le> 90 then c + 32 else c)"

definition no_digit :: "nat \<Rightarrow> nat option" where
  "no_digit c = None"

definition ascii_ci_eq :: "nat \<Rightarrow> nat \<Rightarrow> bool" where
  "ascii_ci_eq p c \<longleftrightarrow> ascii_lower p = ascii_lower c"

definition no_rendering :: "json \<Rightarrow> ustr" where
  "no_rendering v = []"

definition parse_raises :: "ustr \<Rightarrow> parsed option" where
  "parse_raises s = None"

definition ascii_tables :: tables where
  "ascii_tables =
     \<lparr>nd_value = no_digit, str_lower = map ascii_lower, ci_eq = ascii_ci_eq,
      py_str = no_rendering, bs_parse = parse_raises\<rparr>"

definition answering :: "ustr \<Rightarrow> 'g generation" where
  "answering response g request = (Some response, g)"

definition raising :: "'g generation" where
  "raising g request = (None, g)"

section \<open>Evaluation at concrete inputs\<close>

text \<open>The definitions that \<open>simp\<close> unfolds to evaluate the model at a given input.\<close>

lemmas eval_defs = asc_def price_pattern_def py_isspace_def digit_or_comma_def digit_value_def
  ascii_tables_def no_digit_def py_strip_def extract_price_def

lemmas norm_defs = normalize_response_def add_paragraphs_def strip_code_fences_def py_split_def
  end_sentence_def tag_at_def

lemmas item_defs = process_item_def process_item_with_def item_name_of_def process_field_def
  extract_content_def dict_get_def truthy_def to_str_def fields_to_skip_def fields_of_def
  new_result_def strip_tags_def tag_at_def

section \<open>Properties of the HTML content splitter\<close>

text \<open>
  Claim C2, as amended. For every non-empty input the structure returned by
  \<open>extract_and_preserve_html\<close> holds the input under \<open>original_html\<close>, whether the parser
  succeeds or raises; when the parser raises, the result is the input itself as plain text
  and a structure with \<open>original_html\<close> only. The function is total: no exception leaves it.
  For the empty input the result is the empty text and the empty dictionary, which has no
  \<open>original_html\<close>.
\<close>

theorem original_html_kept:
  "(html \<noteq> [] \<longrightarrow> original_html (snd (extract_and_preserve_html T html)) = Some html)
   \<and> (html \<noteq> [] \<and> bs_parse T html = None \<longrightarrow>
        extract_and_preserve_html T html =
          (html, \<lparr>images = None, links = None, has_lists = None, has_headings = None,
                  original_html = Some html\<rparr>))
   \<and> extract_and_preserve_html T [] =
        ([], \<lparr>images = None, links = None, has_lists = None, has_headings = None,
               original_html = None\<rparr>)"
  by (simp add: extract_and_preserve_html_def empty_structure_def split: option.splits)

theorem original_html_kept_witness:
  "original_html (snd (extract_and_preserve_html (ascii_tables\<lparr>bs_parse := map_option (\<lambda>t. \<lparr>p_images = [], p_links = [], p_has_lists = False, p_has_headings = False, p_text = t\<rparr>) \<circ> Some\<rparr>) (asc ''<p>Bonjour</p>''))) = Some (asc ''<p>Bonjour</p>'')
   \<and> extract_and_preserve_html ascii_tables (asc ''<p<Bonjour'') =
          (asc ''<p<Bonjour'', \<lparr>images = None, links = None, has_lists = None, has_headings = None,
                  original_html = Some (asc ''<p<Bonjour'')\<rparr>)"
proof -
  have ne: "asc ''<p>Bonjour</p>'' \<noteq> []" "asc ''<p<Bonjour'' \<noteq> []"
    by (simp_all add: asc_def)
  have pr: "bs_parse ascii_tables (asc ''<p<Bonjour'') = None"
    by (simp add: ascii_tables_def parse_raises_def)
  show ?thesis
    using original_html_kept [of "asc ''<p>Bonjour</p>''"] original_html_kept [of "asc ''<p<Bonjour''" ascii_tables] ne pr
    by blast
qed

theorem original_html_empty_input:
  "original_html (snd (extract_and_preserve_html ascii_tables [])) \<noteq> Some []"
  by (simp add: extract_and_preserve_html_def empty_structure_def)

section \<open>Properties of the rewrite step\<close>

subsection \<open>Short contents and the two services\<close>

lemma strip_nil: "py_strip [] = []"
  by (simp add: py_strip_def)

lemma rewrite_short:
  "content = [] \<or> length (py_strip content) < 10 \<Longrightarrow>
   rewrite_content_with_seo T generate content ft nm ty st g = ((content, None), g)"
  by (auto simp: rewrite_content_with_seo_def)

lemma rewrite_state:
  "snd (rewrite_content_with_seo T generate content ft nm ty st g) =
     (if content = [] \<or> length (py_strip content) < 10 then g
      else snd (generate g (rewrite_request T content ft nm ty)))"
  by (auto simp: rewrite_content_with_seo_def Let_def split: prod.splits option.splits)

lemma rewrite_success:
  assumes "10 \<le> length (py_strip content)"
    and "generate g (rewrite_request T content ft nm ty) = (Some response, g')"
  shows "rewrite_content_with_seo T generate content ft nm ty st g =
     ((normalize_response ft (fst (extract_price T ft content)) response,
       Some (make_stats T (has_vapoteur_discount T content) (fst (extract_price T ft content))
               (snd (extract_price T ft content))
               (normalize_response ft (fst (extract_price T ft content)) response))), g')"
proof -
  have "content \<noteq> []" using assms(1) by (auto simp: strip_nil)
  then show ?thesis
    using assms by (simp add: rewrite_content_with_seo_def Let_def split: prod.splits)
qed

lemma rewrite_raising:
  "rewrite_content_with_seo T raising content ft nm ty st g =
     (if content = [] \<or> length (py_strip content) < 10 then ((content, None), g)
      else ((if fst (extract_price T ft content) \<noteq> []
             then fst (extract_price T ft content) @ snd (extract_price T ft content)
             else snd (extract_price T ft content), None), g))"
  by (simp add: rewrite_content_with_seo_def raising_def split: prod.splits)

lemma rewrite_answering:
  "rewrite_content_with_seo T (answering response) content ft nm ty st g =
     (if content = [] \<or> length (py_strip content) < 10 then ((content, None), g)
      else ((normalize_response ft (fst (extract_price T ft content)) response,
             Some (make_stats T (has_vapoteur_discount T content) (fst (extract_price T ft content))
                     (snd (extract_price T ft content))
                     (normalize_response ft (fst (extract_price T ft content)) response))), g))"
  by (simp add: rewrite_content_with_seo_def answering_def Let_def split: prod.splits)

subsection \<open>The price prefix\<close>

lemma re_match_le: "re_match r s = Some n \<Longrightarrow> n \<le> length s"
  by (induction r s arbitrary: n rule: re_match.induct) (auto split: if_splits option.splits)

lemma price_match_pos: "re_match (price_pattern T) s = Some n \<Longrightarrow> 0 < n"
  by (cases s) (auto simp: price_pattern_def split: if_splits)

lemma meta_not_long: "asc ''Meta description'' \<noteq> asc ''Description courte''" "asc ''Meta description'' \<noteq> asc ''Description''"
  by (simp_all add: asc_def)

lemma extract_price_match:
  "re_match (price_pattern T) content = Some n \<Longrightarrow>
   extract_price T (asc ''Meta description'') content = (take n content, py_strip (drop n content))"
  by (simp add: extract_price_def re_match_le min_absorb2)

lemma normalize_meta:
  "normalize_response (asc ''Meta description'') pp response =
     (if pp \<noteq> [] then pp @ strip_code_fences (py_strip response) else strip_code_fences (py_strip response))"
  by (simp add: normalize_response_def add_paragraphs_def meta_not_long Let_def)

lemma rewrite_meta_prefix:
  assumes m: "re_match (price_pattern T) content = Some n"
  shows "prefix (take n content)
           (fst (fst (rewrite_content_with_seo T generate content (asc ''Meta description'') nm ty st g)))"
proof (cases "content = [] \<or> length (py_strip content) < 10")
  case True
  then show ?thesis by (simp add: rewrite_short take_is_prefix)
next
  case False
  have ne: "take n content \<noteq> []" using price_match_pos[OF m] False by simp
  show ?thesis
    using False ne
    by (auto simp: rewrite_content_with_seo_def extract_price_match[OF m] normalize_meta Let_def split: prod.splits option.splits)
qed

lemma rewrite_request_meta:
  assumes m: "re_match (price_pattern T) content = Some n"
  shows "rewrite_request T content (asc ''Meta description'') nm ty =
     chat_request_of
       (build_prompt nm ty (asc ''Meta description'') (asc ''100-120 '' @ caracteres)
          (py_strip (drop n content)) (brand_instruction (has_vapoteur_discount T content))
          (price_instruction (take n content)))"
proof -
  have "content \<noteq> []" using m by (cases content) (auto simp: price_pattern_def)
  then have ne: "take n content \<noteq> []" using price_match_pos[OF m] by simp
  show ?thesis
    using ne by (simp add: rewrite_request_def extract_price_match[OF m] length_target_def meta_not_long)
qed

text \<open>
  Claim C1, as amended. When the content of a meta description matches the price pattern,
  the captured prefix is a non-empty leading part of the input and the returned text starts
  with the same prefix, whatever the generation service does. The content slot of the
  prompt holds the rest of the input after the prefix, trimmed, and the service is called
  once with that prompt (not at all for a content of fewer than ten trimmed code
  points). The text of the prefix can occur again in that rest, and the prompt quotes the
  prefix in its price instruction.
\<close>

theorem price_prefix_kept:
  assumes m: "re_match (price_pattern T) content = Some n"
  shows "take n content \<noteq> [] \<and> content = take n content @ drop n content
    \<and> prefix (take n content)
        (fst (fst (rewrite_content_with_seo T generate content (asc ''Meta description'') nm ty st g)))
    \<and> rewrite_request T content (asc ''Meta description'') nm ty =
        chat_request_of
          (build_prompt nm ty (asc ''Meta description'') (asc ''100-120 '' @ caracteres)
             (py_strip (drop n content)) (brand_instruction (has_vapoteur_discount T content))
             (price_instruction (take n content)))
    \<and> snd (rewrite_content_with_seo T generate content (asc ''Meta description'') nm ty st g) =
        (if length (py_strip content) < 10 then g
         else snd (generate g (rewrite_request T content (asc ''Meta description'') nm ty)))"
proof -
  have c: "content \<noteq> []" using m by (cases content) (auto simp: price_pattern_def)
  then have ne: "take n content \<noteq> []" using price_match_pos[OF m] by simp
  have s: "snd (rewrite_content_with_seo T generate content (asc ''Meta description'') nm ty st g) =
        (if length (py_strip content) < 10 then g
         else snd (generate g (rewrite_request T content (asc ''Meta description'') nm ty)))"
    using c by (simp add: rewrite_state)
  show ?thesis
    using ne s rewrite_meta_prefix[OF m] rewrite_request_meta[OF m] by simp
qed

theorem price_prefix_kept_witness:
  "prefix (asc ''Prix : 12,90 '' @ [8364] @ asc '' | '')
     (fst (fst (rewrite_content_with_seo ascii_tables (answering (asc ''Booster de nicotine 10 ml.''))
        (asc ''Prix : 12,90 '' @ [8364] @ asc '' | Un booster vraiment excellent '')
        (asc ''Meta description'') (asc ''Booster'') (asc ''product'') empty_structure ())))
   \<and> user_message (rewrite_request ascii_tables
        (asc ''Prix : 12,90 '' @ [8364] @ asc '' | Un booster vraiment excellent '')
        (asc ''Meta description'') (asc ''Booster'') (asc ''product''))
      = build_prompt (asc ''Booster'') (asc ''product'') (asc ''Meta description'')
          (asc ''100-120 '' @ caracteres) (asc ''Un booster vraiment excellent'') []
          (price_instruction (asc ''Prix : 12,90 '' @ [8364] @ asc '' | ''))"
proof -
  let ?c = "asc ''Prix : 12,90 '' @ [8364] @ asc '' | Un booster vraiment excellent ''"
  have m: "re_match (price_pattern ascii_tables) ?c = Some 17"
    by (simp add: eval_defs)
  have t: "take 17 ?c = asc ''Prix : 12,90 '' @ [8364] @ asc '' | ''"
    by (simp add: asc_def)
  have d: "py_strip (drop 17 ?c) = asc ''Un booster vraiment excellent''"
    by (simp add: asc_def py_strip_def py_isspace_def)
  have b: "brand_instruction (has_vapoteur_discount ascii_tables ?c) = []"
    by (simp add: brand_instruction_def has_vapoteur_discount_def ascii_tables_def ascii_lower_def asc_def)
  note k = price_prefix_kept [OF m, of "answering (asc ''Booster de nicotine 10 ml.'')"
      "asc ''Booster''" "asc ''product''" empty_structure "()"]
  show ?thesis
    using k unfolding t d b by (simp add: chat_request_of_def)
qed

theorem price_prefix_in_payload:
  "re_match (price_pattern ascii_tables)
      (asc ''Prix : 5 '' @ [8364] @ asc '' | Prix : 5 '' @ [8364] @ asc '' | e-liquide 10 ml'') = Some 13
   \<and> fst (extract_price ascii_tables (asc ''Meta description'')
        (asc ''Prix : 5 '' @ [8364] @ asc '' | Prix : 5 '' @ [8364] @ asc '' | e-liquide 10 ml''))
      = asc ''Prix : 5 '' @ [8364] @ asc '' | ''
   \<and> user_message (rewrite_request ascii_tables
        (asc ''Prix : 5 '' @ [8364] @ asc '' | Prix : 5 '' @ [8364] @ asc '' | e-liquide 10 ml'')
        (asc ''Meta description'') (asc ''Booster'') (asc ''product''))
      = build_prompt (asc ''Booster'') (asc ''product'') (asc ''Meta description'')
          (asc ''100-120 '' @ caracteres)
          (asc ''Prix : 5 '' @ [8364] @ asc '' | e-liquide 10 ml'') []
          (price_instruction (asc ''Prix : 5 '' @ [8364] @ asc '' | ''))
   \<and> py_in (asc ''Prix : 5 '' @ [8364] @ asc '' | '')
        (asc ''Prix : 5 '' @ [8364] @ asc '' | e-liquide 10 ml'')"
  by (simp add: eval_defs rewrite_request_def chat_request_of_def length_target_def
      brand_instruction_def has_vapoteur_discount_def ascii_lower_def)

subsection \<open>A failed generation call\<close>

text \<open>When no price prefix was taken off, a failed call returns the content as it came.\<close>

lemma failed_generation_without_price:
  assumes "generate g (rewrite_request T content ft nm ty) = (None, g')"
    and "extract_price T ft content = ([], content)"
  shows "rewrite_content_with_seo T generate content ft nm ty st g = ((content, None), g')
       \<or> rewrite_content_with_seo T generate content ft nm ty st g = ((content, None), g)"
  using assms by (simp add: rewrite_content_with_seo_def)

text \<open>
  Claim C3. The claim says that a failed generation call returns the original content
  unchanged. For a meta description with a price prefix and whitespace at its end the
  source returns the prefix followed by the trimmed rest: the two spaces at the end of
  this input are lost, and the statistics are empty.
\<close>

theorem failed_generation_trims_content:
  "fst (rewrite_content_with_seo ascii_tables raising
          (asc ''Prix : 5 '' @ [8364] @ asc '' | e-liquide 10 ml  '') (asc ''Meta description'')
          (asc ''Booster'') (asc ''product'') empty_structure ())
     = (asc ''Prix : 5 '' @ [8364] @ asc '' | e-liquide 10 ml'', None)
   \<and> asc ''Prix : 5 '' @ [8364] @ asc '' | e-liquide 10 ml''
       \<noteq> asc ''Prix : 5 '' @ [8364] @ asc '' | e-liquide 10 ml  ''"
  unfolding rewrite_raising by (simp add: eval_defs)

subsection \<open>The brand phrase\<close>

lemma rewrite_stats_brand:
  "snd (fst (rewrite_content_with_seo T generate content ft nm ty st g)) = Some stt \<Longrightarrow>
   brand_preserved stt =
     (if has_vapoteur_discount T content
      then Some (py_in (asc ''Le Vapoteur Discount'')
                   (fst (fst (rewrite_content_with_seo T generate content ft nm ty st g))))
      else None)"
  by (auto simp: rewrite_content_with_seo_def make_stats_def Let_def
      split: if_splits prod.splits option.splits)

lemma rewrite_stats_exist:
  assumes "10 \<le> length (py_strip content)"
    and "fst (generate g (rewrite_request T content ft nm ty)) \<noteq> None"
  shows "snd (fst (rewrite_content_with_seo T generate content ft nm ty st g)) \<noteq> None"
proof -
  obtain response g' where "generate g (rewrite_request T content ft nm ty) = (Some response, g')"
    using assms(2) by (cases "generate g (rewrite_request T content ft nm ty)") auto
  then show ?thesis
    using rewrite_success[of content generate g T ft nm ty response g' st] assms(1) by simp
qed

text \<open>
  Claim C7. Whenever the rewrite step returns statistics, \<open>brand_preserved\<close> is \<open>None\<close> if
  the brand phrase was not detected in the original content (in its exact spelling, or in
  lower case in the lowered content), and otherwise says whether the phrase in its exact
  spelling occurs in the returned text. Statistics are returned for every content of at
  least ten trimmed code points whose generation call succeeds.
\<close>

theorem brand_preserved_flag:
  "(snd (fst (rewrite_content_with_seo T generate content ft nm ty st g)) = Some stt \<longrightarrow>
      brand_preserved stt =
        (if has_vapoteur_discount T content
         then Some (py_in (asc ''Le Vapoteur Discount'')
                      (fst (fst (rewrite_content_with_seo T generate content ft nm ty st g))))
         else None))
   \<and> (10 \<le> length (py_strip content)
        \<and> fst (generate g (rewrite_request T content ft nm ty)) \<noteq> None \<longrightarrow>
      snd (fst (rewrite_content_with_seo T generate content ft nm ty st g)) \<noteq> None)"
  using rewrite_stats_brand [of T generate content ft nm ty st g stt]
    rewrite_stats_exist [of content generate g T ft nm ty st]
  by blast

theorem brand_preserved_flag_witness:
  "map_option brand_preserved (snd (fst (rewrite_content_with_seo ascii_tables
      (answering (asc ''Kit vendu par Le Vapoteur Discount.''))
      (asc ''LE VAPOTEUR DISCOUNT propose ce kit'') (asc ''Meta titre'') (asc ''Kit'')
      (asc ''product'') empty_structure ()))) = Some (Some True)
   \<and> map_option brand_preserved (snd (fst (rewrite_content_with_seo ascii_tables
      (answering (asc ''Kit vendu par le vapoteur discount.''))
      (asc ''Le Vapoteur Discount propose ce kit'') (asc ''Meta titre'') (asc ''Kit'')
      (asc ''product'') empty_structure ()))) = Some (Some False)
   \<and> map_option brand_preserved (snd (fst (rewrite_content_with_seo ascii_tables
      (answering (asc ''Kit complet avec accu.''))
      (asc ''Un kit vraiment excellent'') (asc ''Meta titre'') (asc ''Kit'')
      (asc ''product'') empty_structure ()))) = Some None"
proof -
  let ?ft = "asc ''Meta titre''" and ?nm = "asc ''Kit''" and ?ty = "asc ''product''"
  let ?c1 = "asc ''LE VAPOTEUR DISCOUNT propose ce kit''"
  let ?r1 = "asc ''Kit vendu par Le Vapoteur Discount.''"
  let ?c2 = "asc ''Le Vapoteur Discount propose ce kit''"
  let ?r2 = "asc ''Kit vendu par le vapoteur discount.''"
  let ?c3 = "asc ''Un kit vraiment excellent''"
  let ?r3 = "asc ''Kit complet avec accu.''"
  let ?R1 = "rewrite_content_with_seo ascii_tables (answering ?r1) ?c1 ?ft ?nm ?ty empty_structure ()"
  let ?R2 = "rewrite_content_with_seo ascii_tables (answering ?r2) ?c2 ?ft ?nm ?ty empty_structure ()"
  let ?R3 = "rewrite_content_with_seo ascii_tables (answering ?r3) ?c3 ?ft ?nm ?ty empty_structure ()"
  have len: "10 \<le> length (py_strip ?c1)" "10 \<le> length (py_strip ?c2)" "10 \<le> length (py_strip ?c3)"
    by (simp_all add: eval_defs)
  have gen: "\<And>r q. fst (answering r () q) \<noteq> None"
    by (simp add: answering_def)
  have has: "has_vapoteur_discount ascii_tables ?c1" "has_vapoteur_discount ascii_tables ?c2"
      "\<not> has_vapoteur_discount ascii_tables ?c3"
    by (simp_all add: has_vapoteur_discount_def ascii_tables_def ascii_lower_def asc_def)
  have out: "fst (fst ?R1) = ?r1" "fst (fst ?R2) = ?r2"
    unfolding rewrite_answering by (simp_all add: eval_defs norm_defs)
  have inn: "py_in (asc ''Le Vapoteur Discount'') ?r1" "\<not> py_in (asc ''Le Vapoteur Discount'') ?r2"
    by (simp_all add: asc_def)
  obtain s1 where s1: "snd (fst ?R1) = Some s1"
    using brand_preserved_flag [of ascii_tables "answering ?r1" ?c1 ?ft ?nm ?ty empty_structure "()"]
      len gen by blast
  obtain s2 where s2: "snd (fst ?R2) = Some s2"
    using brand_preserved_flag [of ascii_tables "answering ?r2" ?c2 ?ft ?nm ?ty empty_structure "()"]
      len gen by blast
  obtain s3 where s3: "snd (fst ?R3) = Some s3"
    using brand_preserved_flag [of ascii_tables "answering ?r3" ?c3 ?ft ?nm ?ty empty_structure "()"]
      len gen by blast
  have b1: "brand_preserved s1 = Some True"
    using brand_preserved_flag [of ascii_tables "answering ?r1" ?c1 ?ft ?nm ?ty empty_structure "()" s1]
      s1 has inn unfolding out by simp
  have b2: "brand_preserved s2 = Some False"
    using brand_preserved_flag [of ascii_tables "answering ?r2" ?c2 ?ft ?nm ?ty empty_structure "()" s2]
      s2 has inn unfolding out by simp
  have b3: "brand_preserved s3 = None"
    using brand_preserved_flag [of ascii_tables "answering ?r3" ?c3 ?ft ?nm ?ty empty_structure "()" s3]
      s3 has by simp
  show ?thesis
    unfolding s1 s2 s3 using b1 b2 b3 by simp
qed

subsection \<open>Paragraphs\<close>

lemma wrap_seven:
  "n = 7 \<Longrightarrow> wrap_go n 0 [] [s1, s2, s3, s4, s5, s6, s7] =
     [asc ''<p>'' @ end_sentence s1 @ [32] @ end_sentence s2 @ [32] @ end_sentence s3 @ asc ''</p>'',
      asc ''<p>'' @ end_sentence s4 @ [32] @ end_sentence s5 @ [32] @ end_sentence s6 @ asc ''</p>'',
      asc ''<p>'' @ end_sentence s7 @ asc ''</p>'']"
  by simp

lemma add_paragraphs_seven:
  assumes "ft = asc ''Description courte'' \<or> ft = asc ''Description''" "60 \<notin> set text"
    and "py_split (asc ''. '') text = [s1, s2, s3, s4, s5, s6, s7]"
  shows "add_paragraphs ft text =
     asc ''<p>'' @ end_sentence s1 @ [32] @ end_sentence s2 @ [32] @ end_sentence s3 @ asc ''</p>'' @ [10] @
     asc ''<p>'' @ end_sentence s4 @ [32] @ end_sentence s5 @ [32] @ end_sentence s6 @ asc ''</p>'' @ [10] @
     asc ''<p>'' @ end_sentence s7 @ asc ''</p>''"
  using assms(1,2) unfolding add_paragraphs_def assms(3) Let_def
  by (simp add: wrap_seven del: wrap_go.simps)

lemma add_paragraphs_few:
  assumes "ft = asc ''Description courte'' \<or> ft = asc ''Description''" "60 \<notin> set text"
    and "length (py_split (asc ''. '') text) \<le> 3"
  shows "add_paragraphs ft text = asc ''<p>'' @ text @ asc ''</p>''"
  using assms by (auto simp: add_paragraphs_def Let_def)

lemma long_form_no_price:
  "ft = asc ''Description courte'' \<or> ft = asc ''Description'' \<Longrightarrow> extract_price T ft content = ([], content)"
  by (auto simp: extract_price_def asc_def)

text \<open>
  What the normalizer does for a short description or a description whose generation call
  succeeds, when the cleaned text (the response, trimmed and with code fences removed) has
  no \<open><\<close> character: seven sentences give three paragraphs of three, three and one
  sentences, each sentence ended with a full stop if it has none; three sentences or
  fewer give one paragraph.
\<close>

theorem paragraphs_in_threes:
  assumes ft: "ft = asc ''Description courte'' \<or> ft = asc ''Description''"
    and len: "10 \<le> length (py_strip content)"
    and gen: "generate g (rewrite_request T content ft nm ty) = (Some response, g')"
    and nolt: "60 \<notin> set (strip_code_fences (py_strip response))"
  shows "(py_split (asc ''. '') (strip_code_fences (py_strip response)) = [s1, s2, s3, s4, s5, s6, s7] \<longrightarrow>
      fst (fst (rewrite_content_with_seo T generate content ft nm ty st g)) =
        asc ''<p>'' @ end_sentence s1 @ [32] @ end_sentence s2 @ [32] @ end_sentence s3 @ asc ''</p>'' @ [10] @
        asc ''<p>'' @ end_sentence s4 @ [32] @ end_sentence s5 @ [32] @ end_sentence s6 @ asc ''</p>'' @ [10] @
        asc ''<p>'' @ end_sentence s7 @ asc ''</p>'')
   \<and> (length (py_split (asc ''. '') (strip_code_fences (py_strip response))) \<le> 3 \<longrightarrow>
      fst (fst (rewrite_content_with_seo T generate content ft nm ty st g)) =
        asc ''<p>'' @ strip_code_fences (py_strip response) @ asc ''</p>'')
   \<and> (\<forall>s. end_sentence s = (if s \<noteq> [] \<and> last s = 46 then s else s @ [46]))"
proof -
  have r: "fst (fst (rewrite_content_with_seo T generate content ft nm ty st g)) =
      add_paragraphs ft (strip_code_fences (py_strip response))"
    using rewrite_success[of content generate g T ft nm ty response g' st] len gen
    by (simp add: long_form_no_price[OF ft] normalize_response_def)
  show ?thesis
    unfolding r using add_paragraphs_seven[OF ft nolt] add_paragraphs_few[OF ft nolt]
    by (auto simp: end_sentence_def)
qed

theorem paragraphs_in_threes_witness:
  "fst (fst (rewrite_content_with_seo ascii_tables
         (answering (asc ''Kit complet. Accu 18650. Pyrex 2 ml. Pas 510. Inox. Noir. Garantie 2 ans''))
         (asc ''Un kit vraiment excellent et savoureux'') (asc ''Description'') (asc ''Kit'')
         (asc ''product'') empty_structure ()))
     = asc ''<p>Kit complet. Accu 18650. Pyrex 2 ml.</p>'' @ [10] @
       asc ''<p>Pas 510. Inox. Noir.</p>'' @ [10] @ asc ''<p>Garantie 2 ans.</p>''
   \<and> fst (fst (rewrite_content_with_seo ascii_tables
         (answering (asc ''Kit complet. Accu 18650.''))
         (asc ''Un kit vraiment excellent et savoureux'') (asc ''Description courte'') (asc ''Kit'')
         (asc ''product'') empty_structure ()))
     = asc ''<p>Kit complet. Accu 18650.</p>''"
proof -
  let ?c = "asc ''Un kit vraiment excellent et savoureux''"
  let ?r7 = "asc ''Kit complet. Accu 18650. Pyrex 2 ml. Pas 510. Inox. Noir. Garantie 2 ans''"
  let ?r2 = "asc ''Kit complet. Accu 18650.''"
  have len: "10 \<le> length (py_strip ?c)"
    by (simp add: eval_defs)
  have c7: "strip_code_fences (py_strip ?r7) = ?r7" and c2: "strip_code_fences (py_strip ?r2) = ?r2"
    by (simp_all add: eval_defs norm_defs)
  have n7: "60 \<notin> set ?r7" and n2: "60 \<notin> set ?r2"
    by (simp_all add: asc_def)
  have s7: "py_split (asc ''. '') ?r7 =
      [asc ''Kit complet'', asc ''Accu 18650'', asc ''Pyrex 2 ml'', asc ''Pas 510'', asc ''Inox'',
       asc ''Noir'', asc ''Garantie 2 ans'']"
    by (simp add: asc_def py_split_def)
  have s2: "length (py_split (asc ''. '') ?r2) \<le> 3"
    by (simp add: asc_def py_split_def)
  have a: "fst (fst (rewrite_content_with_seo ascii_tables (answering ?r7) ?c (asc ''Description'')
        (asc ''Kit'') (asc ''product'') empty_structure ())) =
      asc ''<p>'' @ end_sentence (asc ''Kit complet'') @ [32] @ end_sentence (asc ''Accu 18650'') @ [32] @
      end_sentence (asc ''Pyrex 2 ml'') @ asc ''</p>'' @ [10] @
      asc ''<p>'' @ end_sentence (asc ''Pas 510'') @ [32] @ end_sentence (asc ''Inox'') @ [32] @
      end_sentence (asc ''Noir'') @ asc ''</p>'' @ [10] @
      asc ''<p>'' @ end_sentence (asc ''Garantie 2 ans'') @ asc ''</p>''"
    using paragraphs_in_threes [of "asc ''Description''" ?c "answering ?r7" "()" ascii_tables
        "asc ''Kit''" "asc ''product''" ?r7 "()" "asc ''Kit complet''" "asc ''Accu 18650''"
        "asc ''Pyrex 2 ml''" "asc ''Pas 510''" "asc ''Inox''" "asc ''Noir''" "asc ''Garantie 2 ans''"
        empty_structure]
      len n7 s7 unfolding c7 by (simp add: answering_def)
  have b: "fst (fst (rewrite_content_with_seo ascii_tables (answering ?r2) ?c
        (asc ''Description courte'') (asc ''Kit'') (asc ''product'') empty_structure ())) =
      asc ''<p>'' @ ?r2 @ asc ''</p>''"
    using paragraphs_in_threes [of "asc ''Description courte''" ?c "answering ?r2" "()" ascii_tables
        "asc ''Kit''" "asc ''product''" ?r2 "()" _ _ _ _ _ _ _ empty_structure]
      len n2 s2 unfolding c2 by (simp add: answering_def)
  show ?thesis
    unfolding a b by (simp add: asc_def end_sentence_def)
qed

lemma html_preserved_stats: "html_preserved (make_stats T b pp c r) = has_tag r"
  by (simp add: make_stats_def Let_def)

text \<open>
  Claim C6. The claim promises three paragraphs for a generated text of seven sentences
  without markup. The source adds paragraphs only to a text without the character \<open><\<close>,
  while its comment speaks of a text without tags and its own tag pattern is used two
  statements later. This response has seven sentences and no tag, and comes back as it
  is, without a paragraph, with \<open>html_preserved\<close> false.
\<close>

theorem stray_bracket_not_wrapped:
  "\<not> has_tag (asc ''Puissance < 80 W. Accu 18650. Pyrex 2 ml. Pas 510. Inox. Noir. Kit complet.'')
   \<and> length (py_split (asc ''. '')
         (asc ''Puissance < 80 W. Accu 18650. Pyrex 2 ml. Pas 510. Inox. Noir. Kit complet.'')) = 7
   \<and> fst (fst (rewrite_content_with_seo ascii_tables
         (answering (asc ''Puissance < 80 W. Accu 18650. Pyrex 2 ml. Pas 510. Inox. Noir. Kit complet.''))
         (asc ''Un kit vraiment excellent et savoureux'') (asc ''Description'') (asc ''Kit'')
         (asc ''product'') empty_structure ()))
      = asc ''Puissance < 80 W. Accu 18650. Pyrex 2 ml. Pas 510. Inox. Noir. Kit complet.''
   \<and> map_option html_preserved (snd (fst (rewrite_content_with_seo ascii_tables
         (answering (asc ''Puissance < 80 W. Accu 18650. Pyrex 2 ml. Pas 510. Inox. Noir. Kit complet.''))
         (asc ''Un kit vraiment excellent et savoureux'') (asc ''Description'') (asc ''Kit'')
         (asc ''product'') empty_structure ()))) = Some False"
  unfolding rewrite_answering by (simp add: eval_defs norm_defs html_preserved_stats)

section \<open>Properties of the item processor\<close>

lemma record_rewrite_counts:
  assumes "fields_rewritten (seo_stats r) = length (rewrites r)"
    and "has_been_rewritten r \<longleftrightarrow> rewrites r \<noteq> []"
  shows "fields_rewritten (seo_stats (record_rewrite f fn oc rc st r)) =
           length (rewrites (record_rewrite f fn oc rc st r))
     \<and> (has_been_rewritten (record_rewrite f fn oc rc st r) \<longleftrightarrow>
          rewrites (record_rewrite f fn oc rc st r) \<noteq> [])"
  using assms by (simp add: record_rewrite_def Let_def)

lemma process_field_cases:
  assumes "process_field T rw item nm ty (f, fn) r g = (Inr r', g')"
  shows "r' = r \<or> (f \<notin> set (fields_to_skip ty) \<and> (\<exists>oc rc st. r' = record_rewrite f fn oc rc st r))"
  using assms
  by (auto simp: process_field_def split: if_splits option.splits sum.splits json.splits prod.splits)

lemma process_fields_counts:
  "fields_rewritten (seo_stats r) = length (rewrites r) \<Longrightarrow>
   (has_been_rewritten r \<longleftrightarrow> rewrites r \<noteq> []) \<Longrightarrow>
   process_fields T rw item nm ty fs r g = (Inr r', g') \<Longrightarrow>
   fields_rewritten (seo_stats r') = length (rewrites r')
     \<and> (has_been_rewritten r' \<longleftrightarrow> rewrites r' \<noteq> [])"
proof (induction fs arbitrary: r g)
  case Nil
  then show ?case by simp
next
  case (Cons e fs)
  obtain f fn where e: "e = (f, fn)" by (cases e)
  from Cons.prems(3) obtain r1 g1 where
    st: "process_field T rw item nm ty (f, fn) r g = (Inr r1, g1)"
    and rest: "process_fields T rw item nm ty fs r1 g1 = (Inr r', g')"
    unfolding e by (auto split: prod.splits sum.splits)
  have "fields_rewritten (seo_stats r1) = length (rewrites r1)
     \<and> (has_been_rewritten r1 \<longleftrightarrow> rewrites r1 \<noteq> [])"
    using process_field_cases[OF st] Cons.prems(1,2) record_rewrite_counts[of r] by blast
  then show ?case using Cons.IH[OF _ _ rest] by blast
qed

lemma process_item_with_counts:
  assumes "process_item_with T rw item ty fs g = (Inr r, g')"
  shows "fields_rewritten (seo_stats r) = length (rewrites r)
     \<and> (has_been_rewritten r \<longleftrightarrow> rewrites r \<noteq> [])"
proof -
  from assms obtain nm where
    "process_fields T rw item nm ty fs (new_result (dict_get item (asc ''id'') JNull) nm ty) g
       = (Inr r, g')"
    by (auto simp: process_item_with_def split: sum.splits)
  from process_fields_counts[OF _ _ this] show ?thesis
    by (simp add: new_result_def)
qed

lemma sample_product:
  "process_item ascii_tables (answering (asc ''Ce e-liquide contient de la nicotine.''))
         [(asc ''id'', JNum 424), (asc ''name'', JStr (asc ''Kit Aegis'')),
          (asc ''meta_title'', JStr (asc ''Kit'')),
          (asc ''description_short'',
           JStr (asc ''Ce e-liquide delicieux et savoureux offre un plaisir intense.''))]
         (asc ''product'') (fields_of Products) ()
   = (Inr (record_rewrite (asc ''description_short'') (asc ''Description courte'')
        (asc ''Ce e-liquide delicieux et savoureux offre un plaisir intense.'')
        (asc ''<p>Ce e-liquide contient de la nicotine.</p>'')
        (Some (make_stats ascii_tables False []
           (asc ''Ce e-liquide delicieux et savoureux offre un plaisir intense.'')
           (asc ''<p>Ce e-liquide contient de la nicotine.</p>'')))
        (new_result (JNum 424) (asc ''Kit Aegis'') (asc ''product''))), ())"
  by (simp add: item_defs rewrite_answering eval_defs norm_defs has_vapoteur_discount_def
      ascii_lower_def extract_and_preserve_html_def)

text \<open>
  Claim C10. In every result that \<open>process_item\<close> returns, \<open>fields_rewritten\<close> is the
  length of the list of rewrites, and \<open>has_been_rewritten\<close> holds exactly when that list
  is not empty.
\<close>

theorem process_item_counts:
  "fst (process_item T generate item ty fs g) = Inr r \<longrightarrow>
     fields_rewritten (seo_stats r) = length (rewrites r)
     \<and> (has_been_rewritten r \<longleftrightarrow> rewrites r \<noteq> [])"
  using process_item_with_counts [of T "rewrite_content_with_seo T generate" item ty fs g r
      "snd (process_item T generate item ty fs g)"]
  by (simp add: process_item_def prod_eq_iff)

theorem process_item_counts_witness:
  "(case fst (process_item ascii_tables (answering (asc ''Ce e-liquide contient de la nicotine.''))
         [(asc ''id'', JNum 424), (asc ''name'', JStr (asc ''Kit Aegis'')),
          (asc ''meta_title'', JStr (asc ''Kit'')),
          (asc ''description_short'',
           JStr (asc ''Ce e-liquide delicieux et savoureux offre un plaisir intense.''))]
         (asc ''product'') (fields_of Products) ()) of
      Inl e \<Rightarrow> False
    | Inr r \<Rightarrow> fields_rewritten (seo_stats r) = length (rewrites r) \<and> has_been_rewritten r
        \<and> length (rewrites r) = 1)"
proof -
  let ?r = "record_rewrite (asc ''description_short'') (asc ''Description courte'')
        (asc ''Ce e-liquide delicieux et savoureux offre un plaisir intense.'')
        (asc ''<p>Ce e-liquide contient de la nicotine.</p>'')
        (Some (make_stats ascii_tables False []
           (asc ''Ce e-liquide delicieux et savoureux offre un plaisir intense.'')
           (asc ''<p>Ce e-liquide contient de la nicotine.</p>'')))
        (new_result (JNum 424) (asc ''Kit Aegis'') (asc ''product''))"
  have c: "fields_rewritten (seo_stats ?r) = length (rewrites ?r)
     \<and> (has_been_rewritten ?r \<longleftrightarrow> rewrites ?r \<noteq> [])"
    using process_item_counts [of ascii_tables
      "answering (asc ''Ce e-liquide contient de la nicotine.'')"
      "[(asc ''id'', JNum 424), (asc ''name'', JStr (asc ''Kit Aegis'')),
        (asc ''meta_title'', JStr (asc ''Kit'')),
        (asc ''description_short'',
         JStr (asc ''Ce e-liquide delicieux et savoureux offre un plaisir intense.''))]"
      "asc ''product''" "fields_of Products" "()" ?r]
    unfolding sample_product by simp
  have n: "length (rewrites ?r) = 1"
    by (simp add: record_rewrite_def new_result_def Let_def)
  show ?thesis
    unfolding sample_product using c n by auto
qed

subsection \<open>The name of a product\<close>

lemma record_field: "field ` set (rewrites (record_rewrite f fn oc rc st r)) = insert f (field ` set (rewrites r))"
  by (simp add: record_rewrite_def Let_def)

lemma process_fields_skip:
  "x \<in> set (fields_to_skip ty) \<Longrightarrow> x \<notin> field ` set (rewrites r) \<Longrightarrow>
   process_fields T rw item nm ty fs r g = (Inr r', g') \<Longrightarrow> x \<notin> field ` set (rewrites r')"
proof (induction fs arbitrary: r g)
  case Nil
  then show ?case by simp
next
  case (Cons e fs)
  obtain f fn where e: "e = (f, fn)" by (cases e)
  from Cons.prems(3) obtain r1 g1 where
    st: "process_field T rw item nm ty (f, fn) r g = (Inr r1, g1)"
    and rest: "process_fields T rw item nm ty fs r1 g1 = (Inr r', g')"
    unfolding e by (auto split: prod.splits sum.splits)
  have "x \<notin> field ` set (rewrites r1)"
  proof -
    from process_field_cases[OF st] consider "r1 = r"
      | oc rc st where "f \<notin> set (fields_to_skip ty)" "r1 = record_rewrite f fn oc rc st r"
      by blast
    then show ?thesis
    proof cases
      case 1
      then show ?thesis using Cons.prems(2) by simp
    next
      case 2
      then have "x \<noteq> f" using Cons.prems(1) by auto
      then show ?thesis using Cons.prems(2) unfolding 2(2) record_field by simp
    qed
  qed
  from Cons.IH[OF Cons.prems(1) this rest] show ?case .
qed

lemma product_no_name:
  assumes "process_item_with T rw item (asc ''product'') fs g = (Inr r, g')"
  shows "asc ''name'' \<notin> field ` set (rewrites r)"
proof -
  have sk: "asc ''name'' \<in> set (fields_to_skip (asc ''product''))"
    by (simp add: fields_to_skip_def)
  from assms obtain nm where
    "process_fields T rw item nm (asc ''product'') fs
       (new_result (dict_get item (asc ''id'') JNull) nm (asc ''product'')) g = (Inr r, g')"
    by (auto simp: process_item_with_def split: sum.splits)
  from process_fields_skip[OF sk _ this] show ?thesis
    by (simp add: new_result_def)
qed

lemma extract_content_str: "extract_content T (JStr s) = Inr (JStr s)"
  by (simp add: extract_content_def truthy_def to_str_def)

lemma strip_long_nonempty: "5 < length (py_strip s) \<Longrightarrow> s \<noteq> []"
  by (auto simp: strip_nil)

lemma name_processed:
  assumes "ty \<noteq> asc ''product''" "map_of item (asc ''name'') = Some (JStr s)"
    and "5 < length (py_strip s)"
    and "rw s label nm ty (snd (extract_and_preserve_html T s)) g = ((rewritten, st), g')"
    and "rewritten \<noteq> s"
  shows "process_field T rw item nm ty (asc ''name'', label) r g =
           (Inr (record_rewrite (asc ''name'') label s rewritten st r), g')"
  using assms strip_long_nonempty[OF assms(3)]
  by (simp add: process_field_def fields_to_skip_def extract_content_str truthy_def)

text \<open>Rewrites are only added, so a rewrite of the first field stays in the result.\<close>

lemma process_field_keeps:
  assumes "process_field T rw item nm ty e r g = (Inr r', g')"
  shows "field ` set (rewrites r) \<subseteq> field ` set (rewrites r')"
proof -
  obtain f fn where e: "e = (f, fn)" by (cases e)
  from process_field_cases[OF assms[unfolded e]] show ?thesis
    by (auto simp: record_field)
qed

lemma process_fields_keeps:
  "process_fields T rw item nm ty fs r g = (Inr r', g') \<Longrightarrow>
   field ` set (rewrites r) \<subseteq> field ` set (rewrites r')"
proof (induction fs arbitrary: r g)
  case Nil
  then show ?case by simp
next
  case (Cons e fs)
  from Cons.prems obtain r1 g1 where
    st: "process_field T rw item nm ty e r g = (Inr r1, g1)"
    and rest: "process_fields T rw item nm ty fs r1 g1 = (Inr r', g')"
    by (auto split: prod.splits sum.splits)
  from process_field_keeps[OF st] Cons.IH[OF rest] show ?case by blast
qed

lemma item_name_of_str:
  "map_of item (asc ''name'') = Some (JStr s) \<Longrightarrow>
   item_name_of T item ty =
     Inr (if strip_tags s \<noteq> [] then take 100 (strip_tags s)
          else ty @ [32] @ to_str T (dict_get item (asc ''id'') JNull))"
  by (simp add: item_name_of_def dict_get_def extract_content_str Let_def)

lemma name_first_rewritten:
  assumes ty: "ty \<noteq> asc ''product''"
    and nm: "map_of item (asc ''name'') = Some (JStr s)"
    and len: "5 < length (py_strip s)"
    and rw: "rw s label
               (if strip_tags s \<noteq> [] then take 100 (strip_tags s)
                else ty @ [32] @ to_str T (dict_get item (asc ''id'') JNull))
               ty (snd (extract_and_preserve_html T s)) g = ((rewritten, st), g')"
    and diff: "rewritten \<noteq> s"
    and ok: "fst (process_item_with T rw item ty ((asc ''name'', label) # rest) g) = Inr r"
  shows "asc ''name'' \<in> field ` set (rewrites r)"
proof -
  let ?nm = "if strip_tags s \<noteq> [] then take 100 (strip_tags s)
             else ty @ [32] @ to_str T (dict_get item (asc ''id'') JNull)"
  let ?r0 = "new_result (dict_get item (asc ''id'') JNull) ?nm ty"
  let ?r1 = "record_rewrite (asc ''name'') label s rewritten st ?r0"
  have step: "process_field T rw item ?nm ty (asc ''name'', label) ?r0 g = (Inr ?r1, g')"
    using name_processed[of ty item s rw label ?nm T g rewritten st g' ?r0] ty nm len rw diff
    by blast
  have "fst (process_fields T rw item ?nm ty rest ?r1 g') = Inr r"
    using ok by (simp add: process_item_with_def item_name_of_str[OF nm] step)
  then have "process_fields T rw item ?nm ty rest ?r1 g' =
      (Inr r, snd (process_fields T rw item ?nm ty rest ?r1 g'))"
    by (simp add: prod_eq_iff)
  from process_fields_keeps[OF this] show ?thesis
    by (auto simp: record_field)
qed

lemma sample_category:
  "process_item ascii_tables (answering (asc ''Ce e-liquide contient de la nicotine.''))
         [(asc ''id'', JNum 12), (asc ''name'', JStr (asc ''Les meilleurs kits''))]
         (asc ''category'') (fields_of Categories) ()
   = (Inr (record_rewrite (asc ''name'') (asc ''Nom de la cat'' @ [233] @ asc ''gorie'')
        (asc ''Les meilleurs kits'') (asc ''Ce e-liquide contient de la nicotine.'')
        (Some (make_stats ascii_tables False [] (asc ''Les meilleurs kits'')
           (asc ''Ce e-liquide contient de la nicotine.'')))
        (new_result (JNum 12) (asc ''Les meilleurs kits'') (asc ''category''))), ())"
  by (simp add: item_defs rewrite_answering eval_defs norm_defs has_vapoteur_discount_def
      ascii_lower_def extract_and_preserve_html_def)

text \<open>
  Claim C8. A result of \<open>process_item\<close> for the item type \<open>product\<close> has no rewrite of
  the field \<open>name\<close>. For the item types \<open>category\<close> and \<open>manufacturer\<close> the field
  \<open>name\<close> is not left out: when \<open>name\<close> is the first field to process, as it is in the
  field labels of both types, the item has a name of more than five trimmed code points
  and the rewrite step returns a different text for it, every result that \<open>process_item\<close>
  returns has a rewrite of \<open>name\<close>.
\<close>

theorem product_name_never_rewritten:
  "(fst (process_item T generate item (asc ''product'') fs g) = Inr r \<longrightarrow>
      asc ''name'' \<notin> field ` set (rewrites r))
   \<and> ((ty = asc ''category'' \<or> ty = asc ''manufacturer'')
        \<and> map_of item' (asc ''name'') = Some (JStr s) \<and> 5 < length (py_strip s)
        \<and> rewrite_content_with_seo T generate s label
              (if strip_tags s \<noteq> [] then take 100 (strip_tags s)
               else ty @ [32] @ to_str T (dict_get item' (asc ''id'') JNull))
              ty (snd (extract_and_preserve_html T s)) g
            = ((rewritten, st), g')
        \<and> rewritten \<noteq> s
        \<and> fst (process_item T generate item' ty ((asc ''name'', label) # rest) g) = Inr r' \<longrightarrow>
      asc ''name'' \<in> field ` set (rewrites r'))
   \<and> (\<exists>label rest. fields_of Categories = (asc ''name'', label) # rest)
   \<and> (\<exists>label rest. fields_of Manufacturers = (asc ''name'', label) # rest)"
proof -
  have a: "fst (process_item T generate item (asc ''product'') fs g) = Inr r \<longrightarrow>
      asc ''name'' \<notin> field ` set (rewrites r)"
    using product_no_name [of T "rewrite_content_with_seo T generate" item fs g r
        "snd (process_item T generate item (asc ''product'') fs g)"]
    by (simp add: process_item_def prod_eq_iff)
  have ne: "asc ''category'' \<noteq> asc ''product''" "asc ''manufacturer'' \<noteq> asc ''product''"
    by (simp_all add: asc_def)
  have b: "(ty = asc ''category'' \<or> ty = asc ''manufacturer'')
        \<and> map_of item' (asc ''name'') = Some (JStr s) \<and> 5 < length (py_strip s)
        \<and> rewrite_content_with_seo T generate s label
              (if strip_tags s \<noteq> [] then take 100 (strip_tags s)
               else ty @ [32] @ to_str T (dict_get item' (asc ''id'') JNull))
              ty (snd (extract_and_preserve_html T s)) g
            = ((rewritten, st), g')
        \<and> rewritten \<noteq> s
        \<and> fst (process_item T generate item' ty ((asc ''name'', label) # rest) g) = Inr r' \<longrightarrow>
      asc ''name'' \<in> field ` set (rewrites r')"
    using name_first_rewritten [of ty item' s "rewrite_content_with_seo T generate" label T g
        rewritten st g' rest r'] ne
    unfolding process_item_def by blast
  have c: "\<exists>label rest. fields_of Categories = (asc ''name'', label) # rest"
    "\<exists>label rest. fields_of Manufacturers = (asc ''name'', label) # rest"
    by (simp_all add: fields_of_def)
  show ?thesis using a b c by blast
qed

theorem product_name_never_rewritten_witness:
  "(case fst (process_item ascii_tables (answering (asc ''Ce e-liquide contient de la nicotine.''))
         [(asc ''id'', JNum 424), (asc ''name'', JStr (asc ''Kit Aegis'')),
          (asc ''meta_title'', JStr (asc ''Kit'')),
          (asc ''description_short'',
           JStr (asc ''Ce e-liquide delicieux et savoureux offre un plaisir intense.''))]
         (asc ''product'') (fields_of Products) ()) of
      Inl e \<Rightarrow> False
    | Inr r \<Rightarrow> asc ''name'' \<notin> field ` set (rewrites r) \<and> rewrites r \<noteq> [])
   \<and> (case fst (process_item ascii_tables (answering (asc ''Ce e-liquide contient de la nicotine.''))
          [(asc ''id'', JNum 12), (asc ''name'', JStr (asc ''Les meilleurs kits''))]
          (asc ''category'') (fields_of Categories) ()) of
      Inl e \<Rightarrow> False
    | Inr r \<Rightarrow> asc ''name'' \<in> field ` set (rewrites r))"
proof -
  let ?r = "record_rewrite (asc ''description_short'') (asc ''Description courte'')
        (asc ''Ce e-liquide delicieux et savoureux offre un plaisir intense.'')
        (asc ''<p>Ce e-liquide contient de la nicotine.</p>'')
        (Some (make_stats ascii_tables False []
           (asc ''Ce e-liquide delicieux et savoureux offre un plaisir intense.'')
           (asc ''<p>Ce e-liquide contient de la nicotine.</p>'')))
        (new_result (JNum 424) (asc ''Kit Aegis'') (asc ''product''))"
  let ?gen = "answering (asc ''Ce e-liquide contient de la nicotine.'') :: unit generation"
  let ?s = "asc ''Les meilleurs kits''"
  let ?label = "asc ''Nom de la cat'' @ [233] @ asc ''gorie''"
  let ?rest = "[(asc ''description'', asc ''Description''),
           (asc ''additional_description'', asc ''Informations compl'' @ [233] @ asc ''mentaires''),
           (asc ''meta_title'', asc ''Balise titre''),
           (asc ''meta_description'', asc ''Meta description'')]"
  let ?item = "[(asc ''id'', JNum 12), (asc ''name'', JStr ?s)]"
  let ?rc = "record_rewrite (asc ''name'') ?label ?s (asc ''Ce e-liquide contient de la nicotine.'')
        (Some (make_stats ascii_tables False [] ?s (asc ''Ce e-liquide contient de la nicotine.'')))
        (new_result (JNum 12) ?s (asc ''category''))"
  let ?R = "rewrite_content_with_seo ascii_tables ?gen ?s ?label
      (if strip_tags ?s \<noteq> [] then take 100 (strip_tags ?s)
       else asc ''category'' @ [32] @ to_str ascii_tables (dict_get ?item (asc ''id'') JNull))
      (asc ''category'') (snd (extract_and_preserve_html ascii_tables ?s)) ()"
  have m: "map_of ?item (asc ''name'') = Some (JStr ?s)"
    by (simp add: asc_def)
  have l: "5 < length (py_strip ?s)"
    by (simp add: eval_defs)
  have o: "fst (fst ?R) = asc ''Ce e-liquide contient de la nicotine.''"
    unfolding rewrite_answering by (simp add: eval_defs norm_defs)
  have d: "fst (fst ?R) \<noteq> ?s"
    unfolding o by (simp add: asc_def)
  have e: "?R = ((fst (fst ?R), snd (fst ?R)), snd ?R)"
    by (simp add: prod_eq_iff)
  have f: "fields_of Categories = (asc ''name'', ?label) # ?rest"
    by (simp add: fields_of_def)
  have run: "fst (process_item ascii_tables ?gen ?item (asc ''category'')
      ((asc ''name'', ?label) # ?rest) ()) = Inr ?rc"
    using sample_category unfolding f by simp
  note p = product_name_never_rewritten [of ascii_tables ?gen
      "[(asc ''id'', JNum 424), (asc ''name'', JStr (asc ''Kit Aegis'')),
        (asc ''meta_title'', JStr (asc ''Kit'')),
        (asc ''description_short'',
         JStr (asc ''Ce e-liquide delicieux et savoureux offre un plaisir intense.''))]"
      "fields_of Products" "()" ?r "asc ''category''" ?item ?s ?label
      "fst (fst ?R)" "snd (fst ?R)" "snd ?R" ?rest ?rc]
  have first: "asc ''name'' \<notin> field ` set (rewrites ?r)"
    using p sample_product by simp
  have ne: "rewrites ?r \<noteq> []"
    by (simp add: record_rewrite_def Let_def)
  have second: "asc ''name'' \<in> field ` set (rewrites ?rc)"
    using p m l d e run by blast
  show ?thesis
    unfolding sample_product sample_category using first ne second by simp
qed

subsection \<open>Contents too short to rewrite\<close>

lemma process_field_cong:
  assumes "\<And>c f n t h g. 5 < length (py_strip c) \<Longrightarrow> rw c f n t h g = rw' c f n t h g"
  shows "process_field T rw item nm ty e r g = process_field T rw' item nm ty e r g"
  using assms
  by (auto simp: process_field_def split: if_splits option.splits sum.splits json.splits prod.splits)

lemma process_fields_cong:
  assumes "\<And>c f n t h g. 5 < length (py_strip c) \<Longrightarrow> rw c f n t h g = rw' c f n t h g"
  shows "process_fields T rw item nm ty fs r g = process_fields T rw' item nm ty fs r g"
  by (induction fs arbitrary: r g)
    (simp_all add: process_field_cong[OF assms] split: prod.splits sum.splits)

lemma process_item_with_cong:
  assumes "\<And>c f n t h g. 5 < length (py_strip c) \<Longrightarrow> rw c f n t h g = rw' c f n t h g"
  shows "process_item_with T rw item ty fs g = process_item_with T rw' item ty fs g"
  by (simp add: process_item_with_def process_fields_cong[OF assms] split: sum.splits)

text \<open>
  Claim C5. For a content that is empty or has fewer than ten trimmed code points, the
  rewrite step returns the content unchanged with empty statistics and does not call the
  generation service. The item processor asks the rewrite step only about contents of more
  than five trimmed code points: two rewrite steps that agree on those contents give the
  same outcome of the item processor.
\<close>

theorem short_content_skipped:
  "(content = [] \<or> length (py_strip content) < 10 \<longrightarrow>
      rewrite_content_with_seo T generate content ft nm ty st g = ((content, None), g))
   \<and> ((\<forall>c f n t h g. 5 < length (py_strip c) \<longrightarrow> rw c f n t h g = rw' c f n t h g) \<longrightarrow>
      process_item_with T rw item ity fs g0 = process_item_with T rw' item ity fs g0)"
  using rewrite_short [of content T generate ft nm ty st g]
    process_item_with_cong [of rw rw' T item ity fs g0]
  by blast

theorem short_content_skipped_witness:
  "rewrite_content_with_seo ascii_tables (answering (asc ''Kit complet avec accu.''))
       (asc ''  Kit 10 ml  '') (asc ''Meta titre'') (asc ''Kit'') (asc ''product'') empty_structure ()
     = ((asc ''  Kit 10 ml  '', None), ())
   \<and> process_item_with ascii_tables
         (rewrite_content_with_seo ascii_tables (answering (asc ''Kit complet avec accu.'')))
         [(asc ''id'', JNum 424), (asc ''meta_title'', JStr (asc '' Kit  ''))]
         (asc ''product'') (fields_of Products) ()
     = process_item_with ascii_tables
         (\<lambda>c f n t h g.
            if 5 < length (py_strip c)
            then rewrite_content_with_seo ascii_tables (answering (asc ''Kit complet avec accu.'')) c f n t h g
            else ((asc ''Kit complet avec accu.'', None), g))
         [(asc ''id'', JNum 424), (asc ''meta_title'', JStr (asc '' Kit  ''))]
         (asc ''product'') (fields_of Products) ()"
proof -
  have l: "length (py_strip (asc ''  Kit 10 ml  '')) < 10"
    by (simp add: eval_defs)
  note w = short_content_skipped [of "asc ''  Kit 10 ml  ''" ascii_tables
      "answering (asc ''Kit complet avec accu.'')" "asc ''Meta titre''" "asc ''Kit''"
      "asc ''product''" empty_structure "()"
      "rewrite_content_with_seo ascii_tables (answering (asc ''Kit complet avec accu.''))"
      "\<lambda>c f n t h g.
            if 5 < length (py_strip c)
            then rewrite_content_with_seo ascii_tables (answering (asc ''Kit complet avec accu.'')) c f n t h g
            else ((asc ''Kit complet avec accu.'', None), g)"
      "[(asc ''id'', JNum 424), (asc ''meta_title'', JStr (asc '' Kit  ''))]"
      "asc ''product''" "fields_of Products" "()"]
  show ?thesis
    using w l by simp
qed

section \<open>Properties of the batch driver\<close>

lemma init_counts: "items_rewritten (metadata (init_results now u)) = rewritten_count (init_results now u)"
  by (simp add: init_results_def rewritten_count_def)

lemma set_total_counts:
  "items_rewritten (metadata (set_total coll n res)) = items_rewritten (metadata res)"
  "rewritten_count (set_total coll n res) = rewritten_count res"
  by (cases coll; simp add: set_total_def rewritten_count_def)+

lemma add_result_counts:
  "items_rewritten (metadata res) = rewritten_count res \<Longrightarrow>
   items_rewritten (metadata (add_result coll r res)) = rewritten_count (add_result coll r res)"
  by (cases coll; simp add: add_result_def rewritten_count_def Let_def)

lemma process_all_counts:
  "items_rewritten (metadata res) = rewritten_count res \<Longrightarrow>
   items_rewritten (metadata (fst (snd (process_all process coll items res g)))) =
     rewritten_count (fst (snd (process_all process coll items res g)))"
proof (induction items arbitrary: res g)
  case Nil
  then show ?case by simp
next
  case (Cons it items)
  show ?case
  proof (cases "process it g")
    case (Pair outcome g1)
    show ?thesis
    proof (cases outcome)
      case (Inl e)
      with Pair Cons.prems show ?thesis by simp
    next
      case (Inr r)
      with Pair show ?thesis
        using Cons.IH[OF add_result_counts[OF Cons.prems, of coll r], of g1] by simp
    qed
  qed
qed

lemma run_collection_counts:
  "items_rewritten (metadata res) = rewritten_count res \<Longrightarrow>
   items_rewritten (metadata (fst (snd (run_collection T generate coll items res g)))) =
     rewritten_count (fst (snd (run_collection T generate coll items res g)))"
  by (simp add: run_collection_def process_all_counts set_total_counts)

lemma and_then_counts:
  assumes "items_rewritten (metadata (fst (snd outcome))) = rewritten_count (fst (snd outcome))"
    and "\<And>res g. items_rewritten (metadata res) = rewritten_count res \<Longrightarrow>
           items_rewritten (metadata (fst (snd (next res g)))) = rewritten_count (fst (snd (next res g)))"
  shows "items_rewritten (metadata (fst (snd (and_then outcome next)))) =
           rewritten_count (fst (snd (and_then outcome next)))"
  using assms by (cases outcome) (auto simp: and_then_def split: option.splits)

lemma run_with_params_counts:
  assumes "items_rewritten (metadata res) = rewritten_count res"
  shows "items_rewritten (metadata (fst (snd (run_with_params T generate cat et n res g)))) =
           rewritten_count (fst (snd (run_with_params T generate cat et n res g)))"
  unfolding run_with_params_def Let_def
  by (intro and_then_counts) (simp_all add: assms run_collection_counts)

lemma run_with_specific_ids_counts:
  assumes "items_rewritten (metadata res) = rewritten_count res"
  shows "items_rewritten (metadata (fst (snd (run_with_specific_ids T generate cat et ids res g)))) =
           rewritten_count (fst (snd (run_with_specific_ids T generate cat et ids res g)))"
  unfolding run_with_specific_ids_def Let_def
  by (simp add: assms run_collection_counts)

lemma sample_run:
  "fst (snd (run_with_params ascii_tables (answering (asc ''Ce e-liquide contient de la nicotine.''))
      \<lparr>get_products = (\<lambda>limit.
          [[(asc ''id'', JNum 424), (asc ''name'', JStr (asc ''Kit Aegis'')),
            (asc ''meta_title'', JStr (asc ''Kit'')),
            (asc ''description_short'',
             JStr (asc ''Ce e-liquide delicieux et savoureux offre un plaisir intense.''))]]),
        get_categories = (\<lambda>limit. []), get_manufacturers = (\<lambda>limit. []),
        get_item = (\<lambda>coll i. None)\<rparr>
      (asc ''Produits'') 0 (init_results [] []) ()))
   = add_result Products
       (record_rewrite (asc ''description_short'') (asc ''Description courte'')
        (asc ''Ce e-liquide delicieux et savoureux offre un plaisir intense.'')
        (asc ''<p>Ce e-liquide contient de la nicotine.</p>'')
        (Some (make_stats ascii_tables False []
           (asc ''Ce e-liquide delicieux et savoureux offre un plaisir intense.'')
           (asc ''<p>Ce e-liquide contient de la nicotine.</p>'')))
        (new_result (JNum 424) (asc ''Kit Aegis'') (asc ''product'')))
       (set_total Products 1 (init_results [] []))"
proof -
  have c: "choice_of (asc ''Produits'') = 1"
    by (simp add: choice_of_def)
  have t: "type_of Products = asc ''product''"
    by (simp add: type_of_def)
  show ?thesis
    by (simp add: run_with_params_def c and_then_def run_collection_def t sample_product)
qed

text \<open>
  Claim C4. The results a rewriter starts with satisfy the invariant that
  \<open>items_rewritten\<close> is the number of results marked as rewritten in the three
  collections, and both entry points of the batch driver keep it, for every mode, item set
  and behaviour of the services, also when an exception ends the run.
\<close>

theorem items_rewritten_counts:
  "items_rewritten (metadata (init_results now u)) = rewritten_count (init_results now u)
   \<and> (items_rewritten (metadata res) = rewritten_count res \<longrightarrow>
        items_rewritten (metadata (fst (snd (run_with_params T generate cat et n res g)))) =
          rewritten_count (fst (snd (run_with_params T generate cat et n res g))))
   \<and> (items_rewritten (metadata res) = rewritten_count res \<longrightarrow>
        items_rewritten (metadata (fst (snd (run_with_specific_ids T generate cat et ids res g)))) =
          rewritten_count (fst (snd (run_with_specific_ids T generate cat et ids res g))))"
  using init_counts [of now u] run_with_params_counts [of res T generate cat et n g]
    run_with_specific_ids_counts [of res T generate cat et ids g]
  by blast

theorem items_rewritten_counts_witness:
  "items_rewritten (metadata (fst (snd (run_with_params ascii_tables
      (answering (asc ''Ce e-liquide contient de la nicotine.''))
      \<lparr>get_products = (\<lambda>limit.
          [[(asc ''id'', JNum 424), (asc ''name'', JStr (asc ''Kit Aegis'')),
            (asc ''meta_title'', JStr (asc ''Kit'')),
            (asc ''description_short'',
             JStr (asc ''Ce e-liquide delicieux et savoureux offre un plaisir intense.''))]]),
        get_categories = (\<lambda>limit. []), get_manufacturers = (\<lambda>limit. []),
        get_item = (\<lambda>coll i. None)\<rparr>
      (asc ''Produits'') 0 (init_results [] []) ())))) = 1
   \<and> rewritten_count (fst (snd (run_with_params ascii_tables
      (answering (asc ''Ce e-liquide contient de la nicotine.''))
      \<lparr>get_products = (\<lambda>limit.
          [[(asc ''id'', JNum 424), (asc ''name'', JStr (asc ''Kit Aegis'')),
            (asc ''meta_title'', JStr (asc ''Kit'')),
            (asc ''description_short'',
             JStr (asc ''Ce e-liquide delicieux et savoureux offre un plaisir intense.''))]]),
        get_categories = (\<lambda>limit. []), get_manufacturers = (\<lambda>limit. []),
        get_item = (\<lambda>coll i. None)\<rparr>
      (asc ''Produits'') 0 (init_results [] []) ()))) = 1"
proof -
  let ?cat = "\<lparr>get_products = (\<lambda>limit.
          [[(asc ''id'', JNum 424), (asc ''name'', JStr (asc ''Kit Aegis'')),
            (asc ''meta_title'', JStr (asc ''Kit'')),
            (asc ''description_short'',
             JStr (asc ''Ce e-liquide delicieux et savoureux offre un plaisir intense.''))]]),
        get_categories = (\<lambda>limit. []), get_manufacturers = (\<lambda>limit. []),
        get_item = (\<lambda>coll i. None)\<rparr>"
  note w = items_rewritten_counts [of "[]" "[]" "init_results [] []" ascii_tables
      "answering (asc ''Ce e-liquide contient de la nicotine.'')" ?cat "asc ''Produits''" 0 "()"]
  have e: "items_rewritten (metadata (fst (snd (run_with_params ascii_tables
        (answering (asc ''Ce e-liquide contient de la nicotine.'')) ?cat
        (asc ''Produits'') 0 (init_results [] []) ())))) =
      rewritten_count (fst (snd (run_with_params ascii_tables
        (answering (asc ''Ce e-liquide contient de la nicotine.'')) ?cat
        (asc ''Produits'') 0 (init_results [] []) ())))"
    using w by blast
  have o: "rewritten_count (fst (snd (run_with_params ascii_tables
        (answering (asc ''Ce e-liquide contient de la nicotine.'')) ?cat
        (asc ''Produits'') 0 (init_results [] []) ()))) = 1"
    unfolding sample_run
    by (simp add: rewritten_count_def add_result_def set_total_def init_results_def
        record_rewrite_def new_result_def Let_def)
  show ?thesis
    using e o by simp
qed

section \<open>Properties of the identifier list\<close>


























end
